theory Spec2Isabelle
  imports Main "HOL-Library.Word" "HOL-Library.Multiset"
begin

section \<open>Common types\<close>

type_synonym byte = "8 word"

text \<open>
  Go errors are values.  \<open>Errorf\<close> stands for an error made by \<open>fmt.Errorf\<close> or
  \<open>errors.New\<close> (its text without the formatted arguments), the three named constructors
  for the sentinel errors the oracle code tests with \<open>errors.Is\<close>, and \<open>Panic\<close> for a
  run-time panic (nil dereference, index out of range, division by zero).
\<close>

datatype error =
    Errorf string
  | ErrRestrictedRedirect
  | ErrResponseTooLarge
  | ErrKeyNotFound
  | Panic string

section \<open>smartcontract.CreateMultiSigRedeemScript\<close>

text \<open>
  \<open>vm.EmitInt\<close>, \<open>vm.EmitBytes\<close>, \<open>vm.EmitOpcode\<close> and the opcode table are not part of
  the sources at hand: they are parameters.  Each emitter gets the buffer written so far
  and returns the extended buffer or an error, as the Go functions return \<open>error\<close> after
  writing to the \<open>bytes.Buffer\<close>.
\<close>

record vm_emit =
  EmitInt :: "byte list \<Rightarrow> int \<Rightarrow> error + byte list"
  EmitBytes :: "byte list \<Rightarrow> byte list \<Rightarrow> error + byte list"
  EmitOpcode :: "byte list \<Rightarrow> byte \<Rightarrow> error + byte list"
  CHECKMULTISIG :: byte

text \<open>The loop \<open>for _, pubKey := range publicKeys { vm.EmitBytes(buf, pubKey.Bytes()) }\<close>.\<close>

fun emitPublicKeys ::
  "vm_emit \<Rightarrow> ('k \<Rightarrow> byte list) \<Rightarrow> byte list \<Rightarrow> 'k list \<Rightarrow> error + byte list" where
  "emitPublicKeys vm Bytes buf [] = Inr buf"
| "emitPublicKeys vm Bytes buf (pubKey # rest) =
     (case EmitBytes vm buf (Bytes pubKey) of
        Inl err \<Rightarrow> Inl err
      | Inr buf' \<Rightarrow> emitPublicKeys vm Bytes buf' rest)"

text \<open>
  \<open>keys.PublicKeys\<close> implements \<open>sort.Interface\<close>; its \<open>Less\<close> and the key's \<open>Bytes\<close> are
  not in the sources.  A public key is a value of a linearly ordered type \<open>'k\<close> whose order
  stands for \<open>Less\<close>, so \<open>sort.Sort(publicKeys)\<close> leaves the one sorted permutation,
  \<open>sort publicKeys\<close>.  \<open>m\<close> is a Go \<open>int\<close>; it is only compared, so it is an \<open>int\<close> here.
\<close>

definition CreateMultiSigRedeemScript ::
  "vm_emit \<Rightarrow> ('k::linorder \<Rightarrow> byte list) \<Rightarrow> int \<Rightarrow> 'k list \<Rightarrow> error + byte list" where
  "CreateMultiSigRedeemScript vm Bytes m publicKeys =
     (if m \<le> 1 then Inl (Errorf ''param m cannot be smaller or equal to 1'')
      else if m > int (length publicKeys) then
        Inl (Errorf ''length of the signatures is higher then the number of public keys'')
      else if m > 1024 then Inl (Errorf ''public key count exceeds maximum of length 1024'')
      else
        (case EmitInt vm [] m of
           Inl err \<Rightarrow> Inl err
         | Inr buf1 \<Rightarrow>
             (case emitPublicKeys vm Bytes buf1 (sort publicKeys) of
                Inl err \<Rightarrow> Inl err
              | Inr buf2 \<Rightarrow>
                  (case EmitInt vm buf2 (int (length publicKeys)) of
                     Inl err \<Rightarrow> Inl err
                   | Inr buf3 \<Rightarrow> EmitOpcode vm buf3 (CHECKMULTISIG vm)))))"

text \<open>Emitters used to run the function on concrete inputs: one byte per integer, a
  length byte before a byte string, the opcode byte itself.\<close>

definition plain_emit :: vm_emit where
  "plain_emit =
     \<lparr> EmitInt = (\<lambda>buf i. Inr (buf @ [word_of_int i])),
       EmitBytes = (\<lambda>buf bs. Inr (buf @ word_of_nat (length bs) # bs)),
       EmitOpcode = (\<lambda>buf opc. Inr (buf @ [opc])),
       CHECKMULTISIG = 0xAE \<rparr>"

section \<open>oracle.checkMediaType\<close>

text \<open>The loop \<open>for _, ct := range allowed { if ct == typ { return true } }; return false\<close>.\<close>

fun typeAllowed :: "string list \<Rightarrow> string \<Rightarrow> bool" where
  "typeAllowed [] typ = False"
| "typeAllowed (ct # rest) typ = (if ct = typ then True else typeAllowed rest typ)"

text \<open>
  \<open>mime.ParseMediaType\<close> is Go's standard library: a parameter, returning the media type
  and the error (\<open>None\<close> for \<open>nil\<close>); the parameter map it also returns is dropped by the
  caller.
\<close>

definition checkMediaType ::
  "(string \<Rightarrow> string \<times> error option) \<Rightarrow> string \<Rightarrow> string list \<Rightarrow> bool" where
  "checkMediaType ParseMediaType hdr allowed =
     (if length allowed = 0 then True
      else
        (case ParseMediaType hdr of
           (typ, Some err) \<Rightarrow> False
         | (typ, None) \<Rightarrow> typeAllowed allowed typ))"

section \<open>The oracle service: processRequest and processFailedRequest\<close>

type_synonym u32 = "32 word"
type_synonym u64 = "64 word"
type_synonym Uint256 = "256 word"
type_synonym PrivateKey = "byte list"
type_synonym PublicKey = "byte list"
type_synonym Signature = "byte list"

text \<open>The response codes \<open>processRequest\<close> assigns (\<open>transaction.OracleResponseCode\<close>).\<close>

datatype OracleResponseCode =
    Success
  | ProtocolNotSupported
  | ConsensusUnreachable
  | NotFound
  | Timeout
  | Forbidden
  | ResponseTooLarge
  | ContentTypeNotSupported
  | Error

text \<open>
  The types below are declared outside the sources at hand; each record holds the fields
  that \<open>request.go\<close> reads or writes.  A nil slice is \<open>[]\<close>, a nil pointer is \<open>None\<close>.
\<close>

record OracleRequest =
  OriginalTxID :: Uint256
  GasForResponse :: u64
  URL :: string
  Filter :: "string option"

record request =
  ID :: u64
  Req :: "OracleRequest option"

record OracleResponse =
  RespID :: u64
  Code :: OracleResponseCode
  Result :: "byte list"

record Transaction =
  ValidUntilBlock :: u32
  Response :: OracleResponse

record url_URL =
  Scheme :: string
  Raw :: string

record http_Response =
  StatusCode :: int
  ContentType :: string
  Body :: "byte list"

record incompleteTx =
  isSent :: bool
  attempts :: u64
  time :: nat
  request :: "OracleRequest option"
  tx :: "Transaction option"
  backupTx :: "Transaction option"
  sigs :: "(PublicKey \<times> Signature) list"
  backupSigs :: "(PublicKey \<times> Signature) list"

text \<open>
  The part of \<open>Oracle\<close> that the two functions touch: the incomplete-tx table
  \<open>responses\<close>, the set \<open>removed\<close>, and two logs standing for the callbacks:
  \<open>pooled\<close> lists the arguments of the calls \<open>o.OnTransaction(tx)\<close> made by \<open>sendTx\<close>,
  \<open>broadcast\<close> those of \<open>SendResponse\<close>, oldest first.
\<close>

record Oracle =
  responses :: "u64 \<Rightarrow> incompleteTx option"
  removed :: "u64 \<Rightarrow> bool"
  pooled :: "Transaction option list"
  broadcast :: "(OracleResponse \<times> Signature) list"

text \<open>
  Everything \<open>processRequest\<close> calls that is the outside world (HTTP, NeoFS, the chain,
  the clock, the configuration) or a function of the repository that is not in the sources
  at hand (\<open>readResponse\<close>, \<open>filterRequest\<close>, \<open>CreateResponseTx\<close>, the methods of
  \<open>incompleteTx\<close>, the signing functions) is a field of the environment.  A Go function
  returning \<open>(value, error)\<close> whose value is used only when the error is nil returns a
  sum; \<open>readResponse\<close>, \<open>neofs.Get\<close> and \<open>filterRequest\<close>, whose value is stored in
  \<open>resp.Result\<close> whatever the error, return the pair.
\<close>

record oracle_env =
  url_ParseRequestURI :: "string \<Rightarrow> error + url_URL"
  http_NewRequest :: "string \<Rightarrow> error option"
  Client_Do :: "string \<Rightarrow> error + http_Response"
  mime_ParseMediaType :: "string \<Rightarrow> string \<times> error option"
  AllowedContentTypes :: "string list"
  readResponse :: "byte list \<Rightarrow> nat \<Rightarrow> byte list \<times> error option"
  MaxOracleResultSize :: nat
  NeoFS_Nodes :: "string list"
  neofs_Get :: "PrivateKey \<Rightarrow> url_URL \<Rightarrow> string \<Rightarrow> byte list \<times> error option"
  filterRequest :: "byte list \<Rightarrow> OracleRequest \<Rightarrow> byte list \<times> error option"
  BlockHeight :: u32
  MaxValidUntilBlockIncrement :: u32
  GetTransaction :: "Uint256 \<Rightarrow> error + u32"
  CreateResponseTx :: "int \<Rightarrow> u32 \<Rightarrow> OracleResponse \<Rightarrow> error + Transaction"
  SignHashable :: "PrivateKey \<Rightarrow> Transaction \<Rightarrow> Signature"
  PublicKeyOf :: "PrivateKey \<Rightarrow> PublicKey"
  reverifyTx :: "incompleteTx \<Rightarrow> incompleteTx"
  addResponse :: "incompleteTx \<Rightarrow> PublicKey \<Rightarrow> Signature \<Rightarrow> bool \<Rightarrow> incompleteTx"
  finalize :: "incompleteTx \<Rightarrow> PublicKey list \<Rightarrow> bool
                 \<Rightarrow> incompleteTx \<times> Transaction option \<times> bool"
  backupSigOf :: "incompleteTx \<Rightarrow> PublicKey \<Rightarrow> error + Signature"
  getOracleNodes :: "PublicKey list"
  time_Now :: nat

text \<open>\<open>neofs.URIScheme\<close>.\<close>

definition neofs_URIScheme :: string where
  "neofs_URIScheme = ''neofs''"

text \<open>
  Modelled from the spec: \<open>getResponse\<close> and \<open>newIncompleteTx\<close> are not in the sources.
  The spec keeps an incomplete-tx table keyed by request id; \<open>oracle.go\<close> declares it as
  \<open>responses\<close> next to \<open>removed\<close>, the ids that are processed no further.  The entry of
  the id is returned; with \<open>create\<close> a missing entry of an id that is not removed is made.
\<close>

definition newIncompleteTx :: incompleteTx where
  "newIncompleteTx =
     \<lparr> isSent = False, attempts = 0, time = 0, request = None, tx = None, backupTx = None,
       sigs = [], backupSigs = [] \<rparr>"

definition getResponse :: "Oracle \<Rightarrow> u64 \<Rightarrow> bool \<Rightarrow> incompleteTx option \<times> Oracle" where
  "getResponse orc reqID create =
     (case responses orc reqID of
        Some incTx \<Rightarrow> (Some incTx, orc)
      | None \<Rightarrow>
          if create \<and> \<not> removed orc reqID
          then (Some newIncompleteTx,
                orc\<lparr>responses := (responses orc)(reqID := Some newIncompleteTx)\<rparr>)
          else (None, orc))"

text \<open>\<open>o.sendTx(tx)\<close>: the callback \<open>OnTransaction\<close> is called with \<open>tx\<close>.\<close>

definition sendTx :: "Oracle \<Rightarrow> Transaction option \<Rightarrow> Oracle" where
  "sendTx orc t = orc\<lparr>pooled := pooled orc @ [t]\<rparr>"

text \<open>\<open>o.getBroadcaster().SendResponse(priv, resp, txSig)\<close>.\<close>

definition SendResponse :: "Oracle \<Rightarrow> OracleResponse \<Rightarrow> Signature \<Rightarrow> Oracle" where
  "SendResponse orc resp txSig = orc\<lparr>broadcast := broadcast orc @ [(resp, txSig)]\<rparr>"

text \<open>\<open>getFailedResponse\<close> (not in the sources): the response of the backup transaction.\<close>

definition getFailedResponse :: "u64 \<Rightarrow> OracleResponse" where
  "getFailedResponse reqID = \<lparr> RespID = reqID, Code = ConsensusUnreachable, Result = [] \<rparr>"

subsection \<open>The response code (request.go, lines 113 to 187)\<close>

text \<open>The \<open>case "https"\<close> branch, lines 119 to 160.\<close>

definition httpsResponse :: "oracle_env \<Rightarrow> OracleRequest \<Rightarrow> OracleResponse \<Rightarrow> OracleResponse" where
  "httpsResponse env r resp =
     (case http_NewRequest env (URL r) of
        Some err \<Rightarrow> resp\<lparr>Code := Error\<rparr>
      | None \<Rightarrow>
          (case Client_Do env (URL r) of
             Inl err \<Rightarrow>
               if err = ErrRestrictedRedirect then resp\<lparr>Code := Forbidden\<rparr>
               else resp\<lparr>Code := Error\<rparr>
           | Inr hr \<Rightarrow>
               if StatusCode hr = 200 then
                 if \<not> checkMediaType (mime_ParseMediaType env) (ContentType hr)
                        (AllowedContentTypes env)
                 then resp\<lparr>Code := ContentTypeNotSupported\<rparr>
                 else
                   (case readResponse env (Body hr) (MaxOracleResultSize env) of
                      (res, Some err) \<Rightarrow>
                        if err = ErrResponseTooLarge
                        then resp\<lparr>Result := res, Code := ResponseTooLarge\<rparr>
                        else resp\<lparr>Result := res, Code := Error\<rparr>
                    | (res, None) \<Rightarrow> resp\<lparr>Result := res\<rparr>)
               else if StatusCode hr = 403 then resp\<lparr>Code := Forbidden\<rparr>
               else if StatusCode hr = 404 then resp\<lparr>Code := NotFound\<rparr>
               else if StatusCode hr = 408 then resp\<lparr>Code := Timeout\<rparr>
               else resp\<lparr>Code := Error\<rparr>))"

text \<open>Go's \<open>%\<close> on \<open>int\<close> truncates towards zero; the divisor is positive here.\<close>

definition go_rem :: "int \<Rightarrow> int \<Rightarrow> int" where
  "go_rem a n = (if a < 0 then - ((- a) mod n) else a mod n)"

text \<open>
  The \<open>case neofs.URIScheme\<close> branch, lines 161 to 169.  \<open>int(req.ID) + incTx.attempts\<close>
  is a 64-bit sum read as signed; an empty node list is a division by zero and a negative
  index is out of range: both panic.
\<close>

definition neofsResponse ::
  "oracle_env \<Rightarrow> PrivateKey \<Rightarrow> u64 \<Rightarrow> url_URL \<Rightarrow> incompleteTx \<Rightarrow> OracleResponse
     \<Rightarrow> error + OracleResponse" where
  "neofsResponse env priv reqID u incTx resp =
     (if length (NeoFS_Nodes env) = 0 then Inl (Panic ''integer divide by zero'')
      else
        (let index = go_rem (sint (reqID + attempts incTx)) (int (length (NeoFS_Nodes env)))
         in if index < 0 then Inl (Panic ''index out of range'')
            else
              (case neofs_Get env priv u (NeoFS_Nodes env ! nat index) of
                 (res, Some err) \<Rightarrow> Inr (resp\<lparr>Result := res, Code := Error\<rparr>)
               | (res, None) \<Rightarrow> Inr (resp\<lparr>Result := res\<rparr>))))"

text \<open>Lines 113 to 179: the response before the filter.\<close>

definition fetchResponse ::
  "oracle_env \<Rightarrow> PrivateKey \<Rightarrow> u64 \<Rightarrow> OracleRequest \<Rightarrow> incompleteTx \<Rightarrow> error + OracleResponse" where
  "fetchResponse env priv reqID r incTx =
     (let resp = \<lparr> RespID = reqID, Code = Success, Result = [] \<rparr> in
      case url_ParseRequestURI env (URL r) of
        Inl err \<Rightarrow> Inr (resp\<lparr>Code := ProtocolNotSupported\<rparr>)
      | Inr u \<Rightarrow>
          if Scheme u = ''https'' then Inr (httpsResponse env r resp)
          else if Scheme u = neofs_URIScheme then neofsResponse env priv reqID u incTx resp
          else Inr (resp\<lparr>Code := ProtocolNotSupported\<rparr>))"

text \<open>Lines 180 to 186: the filter runs when the code is still \<open>Success\<close>.\<close>

definition applyFilter :: "oracle_env \<Rightarrow> OracleRequest \<Rightarrow> OracleResponse \<Rightarrow> OracleResponse" where
  "applyFilter env r resp =
     (if Code resp = Success then
        (case filterRequest env (Result resp) r of
           (res, Some err) \<Rightarrow> resp\<lparr>Result := res, Code := Error\<rparr>
         | (res, None) \<Rightarrow> resp\<lparr>Result := res\<rparr>)
      else resp)"

definition createResponse ::
  "oracle_env \<Rightarrow> PrivateKey \<Rightarrow> u64 \<Rightarrow> OracleRequest \<Rightarrow> incompleteTx \<Rightarrow> error + OracleResponse" where
  "createResponse env priv reqID r incTx =
     (case fetchResponse env priv reqID r incTx of
        Inl err \<Rightarrow> Inl err
      | Inr resp \<Rightarrow> Inr (applyFilter env r resp))"

subsection \<open>The two transactions (request.go, lines 189 to 214)\<close>

text \<open>
  The loop \<open>for h <= currentHeight { h += vubInc }\<close> on \<open>uint32\<close>: the sum wraps, and
  with an increment of zero the loop does not end, which is the value \<open>None\<close>.
\<close>

partial_function (option) backupHeight :: "u32 \<Rightarrow> u32 \<Rightarrow> u32 \<Rightarrow> u32 option" where
  "backupHeight h currentHeight vubInc =
     (if h \<le> currentHeight then backupHeight (h + vubInc) currentHeight vubInc else Some h)"

text \<open>The height the primary transaction starts from: lines 191 to 198.\<close>

definition requestHeight :: "oracle_env \<Rightarrow> OracleRequest \<Rightarrow> error + u32" where
  "requestHeight env r =
     (case GetTransaction env (OriginalTxID r) of
        Inl err \<Rightarrow> if err \<noteq> ErrKeyNotFound then Inl err else Inr (BlockHeight env)
      | Inr h \<Rightarrow> Inr h)"

text \<open>
  Lines 189 to 214.  \<open>None\<close>: the loop does not end; \<open>Some (Inl err)\<close>: \<open>return err\<close>;
  \<open>Some (Inr (tx, backupTx))\<close>: both transactions are made.
\<close>

definition createTxs ::
  "oracle_env \<Rightarrow> u64 \<Rightarrow> OracleRequest \<Rightarrow> OracleResponse
     \<Rightarrow> (error + Transaction \<times> Transaction) option" where
  "createTxs env reqID r resp =
     (let currentHeight = BlockHeight env;
          vubInc = MaxValidUntilBlockIncrement env
      in case requestHeight env r of
           Inl err \<Rightarrow> Some (Inl err)
         | Inr h0 \<Rightarrow>
             (let h = h0 + vubInc in
              case CreateResponseTx env (sint (GasForResponse r)) h resp of
                Inl err \<Rightarrow> Some (Inl err)
              | Inr t \<Rightarrow>
                  (case backupHeight h currentHeight vubInc of
                     None \<Rightarrow> None
                   | Some hb \<Rightarrow>
                       (case CreateResponseTx env (sint (GasForResponse r)) hb
                               (getFailedResponse reqID) of
                          Inl err \<Rightarrow> Some (Inl err)
                        | Inr bt \<Rightarrow> Some (Inr (t, bt))))))"

subsection \<open>Signatures and pooling (request.go, lines 216 to 242)\<close>

definition finishRequest ::
  "oracle_env \<Rightarrow> PrivateKey \<Rightarrow> request \<Rightarrow> OracleRequest \<Rightarrow> OracleResponse
     \<Rightarrow> Transaction \<Rightarrow> Transaction \<Rightarrow> incompleteTx \<Rightarrow> Oracle \<Rightarrow> Oracle" where
  "finishRequest env priv req r resp t bt incTx orc =
     (let incTx1 = reverifyTx env (incTx\<lparr>request := Some r, tx := Some t, backupTx := Some bt\<rparr>);
          txSig = SignHashable env priv t;
          incTx2 = addResponse env incTx1 (PublicKeyOf env priv) txSig False;
          backupSig = SignHashable env priv bt;
          incTx3 = addResponse env incTx2 (PublicKeyOf env priv) backupSig True;
          (incTx4, readyTx, ready0) = finalize env incTx3 (getOracleNodes env) False;
          ready = (if ready0 then \<not> isSent incTx4 else False);
          incTx5 = (if ready0 then incTx4\<lparr>isSent := True\<rparr> else incTx4);
          incTx6 = incTx5\<lparr>time := time_Now env, attempts := attempts incTx5 + 1\<rparr>;
          orc1 = SendResponse (orc\<lparr>responses := (responses orc)(ID req := Some incTx6)\<rparr>)
                   resp txSig
      in if ready then sendTx orc1 readyTx else orc1)"

subsection \<open>processFailedRequest (request.go, lines 244 to 272)\<close>

text \<open>
  The function returns nothing; the first component is \<open>Some\<close> of a panic when the lookup
  of the node's own backup signature panics, after the entry has been updated.
\<close>

definition processFailedRequest ::
  "oracle_env \<Rightarrow> PrivateKey \<Rightarrow> request \<Rightarrow> Oracle \<Rightarrow> error option \<times> Oracle" where
  "processFailedRequest env priv req orc =
     (case getResponse orc (ID req) False of
        (None, orc0) \<Rightarrow> (None, orc0)
      | (Some incTx, orc0) \<Rightarrow>
          if isSent incTx then (None, sendTx orc0 (tx incTx))
          else
            (let (incTx1, readyTx, ready0) = finalize env incTx (getOracleNodes env) True;
                 ready = (if ready0 then \<not> isSent incTx1 else False);
                 incTx2 = (if ready0 then incTx1\<lparr>isSent := True\<rparr> else incTx1);
                 incTx3 = incTx2\<lparr>time := time_Now env, attempts := attempts incTx2 + 1\<rparr>;
                 orc1 = orc0\<lparr>responses := (responses orc0)(ID req := Some incTx3)\<rparr>
             in case backupSigOf env incTx3 (PublicKeyOf env priv) of
                  Inl err \<Rightarrow> (Some err, orc1)
                | Inr txSig \<Rightarrow>
                    (let orc2 = SendResponse orc1 (getFailedResponse (ID req)) txSig
                     in (None, if ready then sendTx orc2 readyTx else orc2))))"

subsection \<open>processRequest (request.go, lines 105 to 242)\<close>

text \<open>
  \<open>None\<close>: the call does not return; \<open>Some (err, orc')\<close>: it returns \<open>err\<close> (\<open>None\<close> for
  nil, a \<open>Panic\<close> for a panic) and leaves the service in the state \<open>orc'\<close>.
\<close>

definition processRequest ::
  "oracle_env \<Rightarrow> PrivateKey \<Rightarrow> request \<Rightarrow> Oracle \<Rightarrow> (error option \<times> Oracle) option" where
  "processRequest env priv req orc =
     (case Req req of
        None \<Rightarrow> Some (processFailedRequest env priv req orc)
      | Some r \<Rightarrow>
          (case getResponse orc (ID req) True of
             (None, orc0) \<Rightarrow> Some (None, orc0)
           | (Some incTx, orc0) \<Rightarrow>
               (case createResponse env priv (ID req) r incTx of
                  Inl err \<Rightarrow> Some (Some err, orc0)
                | Inr resp \<Rightarrow>
                    (case createTxs env (ID req) r resp of
                       None \<Rightarrow> None
                     | Some (Inl err) \<Rightarrow> Some (Some err, orc0)
                     | Some (Inr (t, bt)) \<Rightarrow>
                         Some (None, finishRequest env priv req r resp t bt incTx orc0)))))"

subsection \<open>A concrete environment\<close>

text \<open>
  An environment to run the functions on concrete requests: the HTTP client answers every
  request with the given outcome, the request transaction 7 was persisted at height 85,
  the chain is at height 100 and the increment is 10.  The node is the only oracle node:
  a transaction is final as soon as the node's own signature is there.
\<close>

definition demo_env :: "(error + http_Response) \<Rightarrow> oracle_env" where
  "demo_env outcome =
     \<lparr> url_ParseRequestURI =
         (\<lambda>s. if s = [] then Inl (Errorf ''empty url'')
              else Inr \<lparr> Scheme = takeWhile (\<lambda>c. c \<noteq> CHR '':'') s, Raw = s \<rparr>),
       http_NewRequest = (\<lambda>s. None),
       Client_Do = (\<lambda>s. outcome),
       mime_ParseMediaType =
         (\<lambda>hdr. if hdr = [] then ([], Some (Errorf ''mime: no media type''))
                else (takeWhile (\<lambda>c. c \<noteq> CHR '';'') hdr, None)),
       AllowedContentTypes = [''application/json''],
       readResponse =
         (\<lambda>body limit. if length body \<le> limit then (body, None)
                       else ([], Some ErrResponseTooLarge)),
       MaxOracleResultSize = 65535,
       NeoFS_Nodes = [''node0''],
       neofs_Get = (\<lambda>priv u node. ([], Some (Errorf ''unreachable''))),
       filterRequest =
         (\<lambda>bs r. case Filter r of None \<Rightarrow> (bs, None)
                               | Some f \<Rightarrow> ([], Some (Errorf ''filter''))),
       BlockHeight = 100,
       MaxValidUntilBlockIncrement = 10,
       GetTransaction = (\<lambda>h. if h = 7 then Inr 85 else Inl ErrKeyNotFound),
       CreateResponseTx = (\<lambda>gas vub resp. Inr \<lparr> ValidUntilBlock = vub, Response = resp \<rparr>),
       SignHashable = (\<lambda>priv t. priv),
       PublicKeyOf = (\<lambda>priv. priv),
       reverifyTx = (\<lambda>t. t),
       addResponse =
         (\<lambda>t pub sg backup.
            if backup then t\<lparr>backupSigs := (pub, sg) # backupSigs t\<rparr>
            else t\<lparr>sigs := (pub, sg) # sigs t\<rparr>),
       finalize =
         (\<lambda>t nodes backupOnly.
            if \<not> backupOnly \<and> sigs t \<noteq> [] then (t, tx t, True)
            else (t, backupTx t, backupSigs t \<noteq> [])),
       backupSigOf =
         (\<lambda>t pub. case map_of (backupSigs t) pub of
                     None \<Rightarrow> Inl (Panic ''nil pointer dereference'')
                   | Some sg \<Rightarrow> Inr sg),
       getOracleNodes = [[1]],
       time_Now = 0 \<rparr>"

definition demo_request :: "string \<Rightarrow> string option \<Rightarrow> OracleRequest" where
  "demo_request url flt =
     \<lparr> OriginalTxID = 7, GasForResponse = 1000, URL = url, Filter = flt \<rparr>"

definition demo_json :: "error + http_Response" where
  "demo_json =
     Inr \<lparr> StatusCode = 200, ContentType = ''application/json'', Body = [52, 50] \<rparr>"

definition demo_status :: "int \<Rightarrow> error + http_Response" where
  "demo_status code = Inr \<lparr> StatusCode = code, ContentType = ''text/html'', Body = [] \<rparr>"

definition empty_Oracle :: Oracle where
  "empty_Oracle =
     \<lparr> responses = (\<lambda>reqID. None), removed = (\<lambda>reqID. False), pooled = [], broadcast = [] \<rparr>"

text \<open>The two transactions of request 1 in this environment, and the entry after
  \<open>processRequest\<close> has pooled the primary one.\<close>

definition demo_tx :: Transaction where
  "demo_tx =
     \<lparr> ValidUntilBlock = 95,
       Response = \<lparr> RespID = 1, Code = Success, Result = [52, 50] \<rparr> \<rparr>"

definition demo_backupTx :: Transaction where
  "demo_backupTx = \<lparr> ValidUntilBlock = 105, Response = getFailedResponse 1 \<rparr>"

definition demo_sent :: incompleteTx where
  "demo_sent =
     \<lparr> isSent = True, attempts = 1, time = 0,
       request = Some (demo_request ''https://example/x'' None),
       tx = Some demo_tx, backupTx = Some demo_backupTx,
       sigs = [([1], [1])], backupSigs = [([1], [1])] \<rparr>"

definition demo_Oracle_sent :: Oracle where
  "demo_Oracle_sent =
     \<lparr> responses = (\<lambda>reqID. None)(1 := Some demo_sent),
       removed = (\<lambda>reqID. False),
       pooled = [Some demo_tx],
       broadcast = [(\<lparr> RespID = 1, Code = Success, Result = [52, 50] \<rparr>, [1])] \<rparr>"

section \<open>The consensus service: NewService and OnPayload\<close>

type_synonym Uint160 = "160 word"



text \<open>
  Modelled from the spec: the type \<open>relayCache\<close> with \<open>newFIFOCache\<close>, \<open>Has\<close> and \<open>Add\<close>
  is not in the sources.  The spec and the comment of the field \<open>cache\<close> say a FIFO cache
  that holds the recent payloads: a queue of bounded length, newest entry first, keyed by
  the hash of the entry; adding an entry whose hash is there changes nothing, and adding
  one beyond the capacity drops the oldest.
\<close>

record 'a relayCache =
  maxCap :: nat
  queue :: "(Uint256 \<times> 'a) list"


definition Has :: "'a relayCache \<Rightarrow> Uint256 \<Rightarrow> bool" where
  "Has c h = (h \<in> set (map fst (queue c)))"

definition Add :: "'a relayCache \<Rightarrow> Uint256 \<Rightarrow> 'a \<Rightarrow> 'a relayCache" where
  "Add c h p =
     (if Has c h then c
      else
        (let q = (h, p) # queue c
         in if length q > maxCap c then c\<lparr>queue := butlast q\<rparr> else c\<lparr>queue := q\<rparr>))"

text \<open>
  A value of the interface \<open>crypto.PublicKey\<close>, by its dynamic type: a key that
  \<open>crypto.NewBLSPublicKey\<close> of the dBFT library made from a point (\<open>None\<close> for the nil
  point that \<open>getBLSPub\<close> returns for a string it cannot decode), or a \<open>*publicKey\<close> of
  this package.  The type assertion \<open>pub.(*publicKey)\<close> panics on the first.
\<close>

datatype crypto_PublicKey =
    BLSPublicKey "byte list option"
  | publicKey "byte list"


text \<open>
  The payload type is declared outside the sources; the record holds what \<open>OnPayload\<close>
  and \<open>validatePayload\<close> read: the index of the validator, the type of the message, the
  miner transaction of the message when \<open>cp.GetPrepareRequest()\<close> is a \<open>*prepareRequest\<close>
  (\<open>None\<close> when it is not: the type assertion of line 265 panics), and the rest of the
  payload as bytes.
\<close>

datatype payload_Type = ChangeViewType | PrepareRequestType | PrepareResponseType | CommitType

record Payload =
  validatorIndex :: "16 word"
  payload_type :: payload_Type
  prepareRequest :: "byte list option"
  data :: "byte list"



text \<open>
  What comes from libraries or from parts of the package that are not in the sources is a
  parameter: the logger, decoding a point (\<open>hex.DecodeString\<close> and
  \<open>UnmarshalBinary\<close> in \<open>getBLSPub\<close>), \<open>MarshalBinary\<close> of a key, whether \<open>dbft.New\<close>
  returns an instance, the hash of a payload and of a transaction, \<open>p.Verify(h)\<close>, and
  the hash of the verification script of a \<open>*publicKey\<close>.
\<close>

record consensus_env =
  getLogger :: "error option"
  getBLSPub :: "string \<Rightarrow> byte list option"
  MarshalBinary :: "crypto_PublicKey \<Rightarrow> byte list"
  dbft_New :: bool
  Payload_Hash :: "Payload \<Rightarrow> Uint256"
  Tx_Hash :: "byte list \<Rightarrow> Uint256"
  Verify :: "Payload \<Rightarrow> Uint160 \<Rightarrow> bool"
  verificationHash :: "byte list \<Rightarrow> Uint160"

text \<open>
  The fields of \<open>service\<close> that \<open>NewService\<close> and \<open>OnPayload\<close> touch.  \<open>relayed\<close> lists
  the arguments of the calls of the callback \<open>s.Config.Broadcast\<close>, oldest first;
  \<open>messages\<close> is what the channel of that name holds, oldest first (its capacity is 100);
  \<open>has_dbft\<close> says that \<open>s.dbft\<close> is not nil.
\<close>

record service =
  timePerBlock :: int
  validators :: "crypto_PublicKey list"
  has_dbft :: bool
  cache :: "Payload relayCache"
  txx :: "byte list relayCache"
  relayed :: "Payload list"
  messages :: "Payload list"





text \<open>
  \<open>validatePayload\<close>, lines 183 to 194.  \<open>getValidators\<close> returns \<open>s.validators\<close> (the
  rest of its body is not reached).  The type assertion of line 190 is not checked: it
  panics when the validator is not a \<open>*publicKey\<close>.
\<close>

definition validatePayload :: "consensus_env \<Rightarrow> service \<Rightarrow> Payload \<Rightarrow> error + bool" where
  "validatePayload env s p =
     (if unat (validatorIndex p) \<ge> length (validators s) then Inr False
      else
        (case validators s ! unat (validatorIndex p) of
           publicKey k \<Rightarrow> Inr (Verify env p (verificationHash env k))
         | BLSPublicKey pt \<Rightarrow>
             Inl (Panic ''interface conversion: crypto.PublicKey is not *consensus.publicKey'')))"

text \<open>How a call ends: it returns, it panics, or it is blocked on the send to a channel
  that is full (for as long as nothing is received from it).\<close>

datatype status = Returned | Panicked error | Blocked

text \<open>
  \<open>OnPayload\<close>, lines 250 to 269: how the call ends, and the service as it is then.  The
  send \<open>s.messages <- *cp\<close> needs room in the channel, whose capacity is 100.
\<close>

definition OnPayload :: "consensus_env \<Rightarrow> service \<Rightarrow> Payload \<Rightarrow> status \<times> service" where
  "OnPayload env s cp =
     (case validatePayload env s cp of
        Inl err \<Rightarrow> (Panicked err, s)
      | Inr valid \<Rightarrow>
          if \<not> valid \<or> Has (cache s) (Payload_Hash env cp) then (Returned, s)
          else
            (let s1 = s\<lparr>relayed := relayed s @ [cp],
                        cache := Add (cache s) (Payload_Hash env cp) cp\<rparr>
             in if \<not> has_dbft s1 then (Returned, s1)
                else if payload_type cp = PrepareRequestType \<and> prepareRequest cp = None
                then (Panicked (Panic ''interface conversion: not *consensus.prepareRequest''), s1)
                else
                  (let s2 = (case (payload_type cp, prepareRequest cp) of
                               (PrepareRequestType, Some minerTx) \<Rightarrow>
                                 s1\<lparr>txx := Add (txx s1) (Tx_Hash env minerTx) minerTx\<rparr>
                             | _ \<Rightarrow> s1)
                   in if length (messages s2) < 100
                      then (Returned, s2\<lparr>messages := messages s2 @ [cp]\<rparr>)
                      else (Blocked, s2))))"


subsection \<open>A concrete service\<close>





section \<open>native.Call\<close>

text \<open>
  Stack items, the value universe of the spec (section 3) as far as the models below use
  it.  The top of an evaluation stack is the head of the list.
\<close>

datatype Item = Null | Integer int | Boolean bool | ByteString "byte list" | Array "Item list"

text \<open>The parameter types that name a return type in the sources at hand.\<close>

datatype ParamType = AnyType | BoolType | IntegerType | StringType | Hash160Type | VoidType

type_synonym CallFlag = "8 word"

text \<open>
  \<open>CallFlag.Has\<close> is not in the sources; call flags are a bit mask (spec, glossary), and
  \<open>f.Has(cf)\<close> holds when every flag of \<open>cf\<close> is set in \<open>f\<close>.
\<close>

definition Has_flags :: "CallFlag \<Rightarrow> CallFlag \<Rightarrow> bool" where
  "Has_flags f cf = (and f cf = cf)"

text \<open>
  The state of the VM that \<open>Call\<close> reads and writes: the evaluation stack of the current
  context, its script hash, instruction pointer and call flags, and the gas counters
  (\<open>int64\<close>).
\<close>

record VM =
  Estack :: "Item list"
  CurrentScriptHash :: Uint160
  IP :: int
  CallFlags :: CallFlag
  gasConsumed :: "64 word"
  GasLimit :: "64 word"

text \<open>
  A method of a native contract with its price and flags.  \<open>Func\<close> is the handler
  \<open>m.Func(ic, args)\<close>: it gets the VM and the arguments and returns the result and the
  VM as it left it, or panics.
\<close>

record MethodAndPrice =
  Func :: "VM \<Rightarrow> Item list \<Rightarrow> error + Item \<times> VM"
  MD_Name :: string
  MD_Offset :: int
  MD_Parameters :: "ParamType list"
  MD_ReturnType :: ParamType
  Price :: "64 word"
  RequiredFlags :: CallFlag

record NativeContract =
  Hash :: Uint160
  Methods :: "MethodAndPrice list"

record interop_Context =
  VM :: VM
  Natives :: "NativeContract list"

text \<open>
  \<open>GetMethodByOffset\<close> is not in the sources: the methods of a native contract sit at
  known offsets of its script (spec, section 4.5), and the method at the offset is looked up.
\<close>

definition GetMethodByOffset :: "NativeContract \<Rightarrow> int \<Rightarrow> MethodAndPrice option" where
  "GetMethodByOffset c offset = find (\<lambda>m. MD_Offset m = offset) (Methods c)"

text \<open>
  \<open>VM.AddGas\<close> is not in the sources.  Spec, section 4.2: gas is added before the effect,
  and an \<open>AddGas\<close> that would cross the limit faults; the test helpers of the sources run
  scripts with \<open>GasLimit = -1\<close>, so a negative limit is no limit.  The counters are
  \<open>int64\<close>: the sum wraps and the comparison is signed.
\<close>

definition AddGas :: "VM \<Rightarrow> 64 word \<Rightarrow> bool \<times> VM" where
  "AddGas v gas =
     (let v' = v\<lparr>gasConsumed := gasConsumed v + gas\<rparr>
      in (sint (GasLimit v') < 0 \<or> sint (gasConsumed v') \<le> sint (GasLimit v'), v'))"

text \<open>
  The loop \<open>for i := range args { args[i] = ic.VM.Estack().Pop().Item() }\<close>: \<open>n\<close> items
  are popped, the first one popped is \<open>args[0]\<close>; popping from an empty stack panics.
\<close>

fun popArgs :: "nat \<Rightarrow> Item list \<Rightarrow> error + Item list \<times> Item list" where
  "popArgs 0 st = Inr ([], st)"
| "popArgs (Suc n) [] = Inl (Panic ''pop from an empty stack'')"
| "popArgs (Suc n) (x # st) =
     (case popArgs n st of
        Inl err \<Rightarrow> Inl err
      | Inr (args, st') \<Rightarrow> Inr (x # args, st'))"

text \<open>
  \<open>Call\<close>.  \<open>int64Of\<close> stands for \<open>Pop().BigInt().Int64()\<close> on the popped item (the
  conversions of stack items are not in the sources); it fails for an item that is not a
  number.  An error is \<open>Inl\<close>, and so is a panic.
\<close>

definition Call :: "(Item \<Rightarrow> error + int) \<Rightarrow> interop_Context \<Rightarrow> error + interop_Context" where
  "Call int64Of ic =
     (case Estack (VM ic) of
        [] \<Rightarrow> Inl (Panic ''pop from an empty stack'')
      | v # st \<Rightarrow>
          (case int64Of v of
             Inl err \<Rightarrow> Inl err
           | Inr version \<Rightarrow>
               if version \<noteq> 0 then Inl (Errorf ''native contract of version is not active'')
               else
                 (case find (\<lambda>ctr. Hash ctr = CurrentScriptHash (VM ic)) (Natives ic) of
                    None \<Rightarrow> Inl (Errorf ''native contract not found'')
                  | Some c \<Rightarrow>
                      (case GetMethodByOffset c (IP (VM ic)) of
                         None \<Rightarrow> Inl (Errorf ''method not found'')
                       | Some m \<Rightarrow>
                           if \<not> Has_flags (CallFlags (VM ic)) (RequiredFlags m)
                           then Inl (Errorf ''missing call flags for native operation call'')
                           else
                             (case AddGas ((VM ic)\<lparr>Estack := st\<rparr>) (Price m) of
                                (False, vm1) \<Rightarrow> Inl (Errorf ''gas limit exceeded'')
                              | (True, vm1) \<Rightarrow>
                                  (case popArgs (length (MD_Parameters m)) (Estack vm1) of
                                     Inl err \<Rightarrow> Inl err
                                   | Inr (args, st') \<Rightarrow>
                                       (case Func m (vm1\<lparr>Estack := st'\<rparr>) args of
                                          Inl err \<Rightarrow> Inl err
                                        | Inr (result, vm2) \<Rightarrow>
                                            Inr (ic\<lparr>VM :=
                                                   if MD_ReturnType m \<noteq> VoidType
                                                   then vm2\<lparr>Estack := result # Estack vm2\<rparr>
                                                   else vm2\<rparr>))))))))"

subsection \<open>A concrete native contract\<close>

text \<open>A contract with the hash 1 and two methods: \<open>add\<close> at offset 0 takes two integers
  and returns their sum, \<open>touch\<close> at offset 7 takes one argument and returns nothing.\<close>

definition demo_int64Of :: "Item \<Rightarrow> error + int" where
  "demo_int64Of v = (case v of Integer i \<Rightarrow> Inr i | _ \<Rightarrow> Inl (Panic ''not a number''))"

definition demo_add :: MethodAndPrice where
  "demo_add =
     \<lparr> Func = (\<lambda>vm args. case args of
                  [Integer a, Integer b] \<Rightarrow> Inr (Integer (a + b), vm)
                | _ \<Rightarrow> Inl (Panic ''invalid arguments'')),
       MD_Name = ''add'', MD_Offset = 0, MD_Parameters = [IntegerType, IntegerType],
       MD_ReturnType = IntegerType, Price = 10, RequiredFlags = 1 \<rparr>"

definition demo_touch :: MethodAndPrice where
  "demo_touch =
     \<lparr> Func = (\<lambda>vm args. Inr (Null, vm)),
       MD_Name = ''touch'', MD_Offset = 7, MD_Parameters = [AnyType],
       MD_ReturnType = VoidType, Price = 10, RequiredFlags = 2 \<rparr>"

definition demo_native :: NativeContract where
  "demo_native = \<lparr> Hash = 1, Methods = [demo_add, demo_touch] \<rparr>"

definition demo_ic :: "int \<Rightarrow> int \<Rightarrow> interop_Context" where
  "demo_ic version offset =
     \<lparr> VM = \<lparr> Estack = [Integer version, Integer 2, Integer 3, Integer 42],
              CurrentScriptHash = 1, IP = offset, CallFlags = 15,
              gasConsumed = 0, GasLimit = 100 \<rparr>,
       Natives = [demo_native] \<rparr>"

section \<open>Contract management\<close>
























section \<open>Runtime.CheckWitness\<close>

text \<open>
  Modelled from the spec: \<open>runtime.CheckWitness\<close> and the transaction types are not in
  the sources, which hold only the test \<open>TestRuntimeCheckWitness\<close>.  Spec, sections 3 and
  8: a signer has an account and one witness scope; \<open>CheckWitness(h)\<close> is false for the
  scope None, true for Global, true for CustomContracts only when the current script hash
  is in the allow-list, and true for CustomGroups only when the contract has a group key
  in the allow-list and the flag \<open>AllowStates\<close> is held.  Where the spec is silent the
  test decides: the contract whose groups count is the calling one; a missing flag and an
  unknown calling contract are errors; without a calling script the answer is false; a
  container that is not a transaction is an error; the scope CalledByEntry holds at the
  entry script; and a hash that belongs to no signer is witnessed only as the hash of the
  calling script.
\<close>

datatype WitnessScope = ScopeNone | CalledByEntry | CustomContracts | CustomGroups | Global

record Signer =
  Account :: Uint160
  Scopes :: WitnessScope
  AllowedContracts :: "Uint160 list"
  AllowedGroups :: "PublicKey list"

text \<open>
  What \<open>CheckWitness\<close> reads: the signers of the container (\<open>None\<close> when the
  container is not a transaction), the script hashes of the current, the calling (\<open>None\<close>
  when empty) and the entry context, the call flags of the current context, and the group
  keys of the manifests of the deployed contracts.
\<close>

record witness_Context =
  Signers :: "Signer list option"
  currentScriptHash :: Uint160
  callingScriptHash :: "Uint160 option"
  entryScriptHash :: Uint160
  contextCallFlags :: CallFlag
  manifestGroups :: "Uint160 \<Rightarrow> PublicKey list option"

text \<open>The flag \<open>AllowStates\<close>: one bit of the mask.\<close>

definition AllowStates :: CallFlag where
  "AllowStates = 1"

definition checkScope :: "witness_Context \<Rightarrow> Signer \<Rightarrow> error + bool" where
  "checkScope ctx c =
     (case Scopes c of
        ScopeNone \<Rightarrow> Inr False
      | Global \<Rightarrow> Inr True
      | CalledByEntry \<Rightarrow>
          Inr (callingScriptHash ctx = None \<or> callingScriptHash ctx = Some (entryScriptHash ctx))
      | CustomContracts \<Rightarrow> Inr (currentScriptHash ctx \<in> set (AllowedContracts c))
      | CustomGroups \<Rightarrow>
          if \<not> Has_flags (contextCallFlags ctx) AllowStates
          then Inl (Errorf ''missing AllowStates call flag'')
          else
            (case callingScriptHash ctx of
               None \<Rightarrow> Inr False
             | Some calling \<Rightarrow>
                 (case manifestGroups ctx calling of
                    None \<Rightarrow> Inl (Errorf ''unknown contract'')
                  | Some groups \<Rightarrow> Inr (list_ex (\<lambda>g. g \<in> set (AllowedGroups c)) groups))))"

definition CheckWitness :: "witness_Context \<Rightarrow> Uint160 \<Rightarrow> error + bool" where
  "CheckWitness ctx h =
     (case Signers ctx of
        None \<Rightarrow> Inl (Errorf ''script container is not a transaction'')
      | Some signers \<Rightarrow>
          (case find (\<lambda>c. Account c = h) signers of
             None \<Rightarrow> Inr (callingScriptHash ctx = Some h)
           | Some c \<Rightarrow> checkScope ctx c))"

text \<open>The context of the test's case CustomGroups, positive: the signer 9 allows the
  group key \<open>[5]\<close>, the calling contract 7 has that key in its manifest, and the current
  context holds the given flags.\<close>

definition demo_witness :: "WitnessScope \<Rightarrow> CallFlag \<Rightarrow> witness_Context" where
  "demo_witness scope flags =
     \<lparr> Signers = Some [\<lparr> Account = 9, Scopes = scope, AllowedContracts = [8],
                         AllowedGroups = [[5]] \<rparr>],
       currentScriptHash = 8,
       callingScriptHash = Some 7,
       entryScriptHash = 7,
       contextCallFlags = flags,
       manifestGroups = (\<lambda>h. if h = 7 then Some [[5]] else None) \<rparr>"

section \<open>Contract.Call and the isolated stack\<close>

text \<open>
  Modelled from the spec: the VM and the interop \<open>contract.Call\<close> are not in the sources,
  which hold only the test \<open>TestContractCall\<close>.  Spec, sections 3 and 4.2: an evaluation
  context is a frame with its script, its instruction pointer, its own evaluation stack
  and a return-value count; the run halts when the chain of contexts is empty and faults
  on an uncaught fault; \<open>Contract.Call\<close> pushes a context with an isolated evaluation
  stack, and on return exactly the declared number of return values must be on the
  callee's stack, else the run faults.  The test adds that a method declared \<open>Void\<close>
  hands \<open>Null\<close> to the caller.  The instructions are the ones the contract of the test is
  made of (\<open>getTestContractState\<close>): push a number, add, drop, return, abort.
\<close>

datatype Instr = PUSH int | ADD | DROP | RET | ABORT

text \<open>
  A context: the instructions from the instruction pointer on, its evaluation stack (top
  first), and the return-value count that is checked when it returns (\<open>None\<close>: no check,
  the entry script).
\<close>

record ExecContext =
  prog :: "Instr list"
  estack :: "Item list"
  retCount :: "nat option"

datatype vm_state = HALT "Item list" | FAULT

text \<open>
  The callee's stack at its return, checked against the declared count: \<open>None\<close> is a
  violation; a count of zero hands \<open>Null\<close> to the caller.
\<close>

definition returnValues :: "ExecContext \<Rightarrow> Item list option" where
  "returnValues c =
     (case retCount c of
        None \<Rightarrow> Some (estack c)
      | Some k \<Rightarrow>
          if length (estack c) \<noteq> k then None
          else if k = 0 then Some [Null] else Some (estack c))"

text \<open>Unloading the current context: the run halts with its values when it was the
  last one, else they are moved onto the stack of the context below.\<close>

definition unload :: "ExecContext \<Rightarrow> ExecContext list \<Rightarrow> (vm_state + ExecContext list)" where
  "unload c cs =
     (case returnValues c of
        None \<Rightarrow> Inl FAULT
      | Some vals \<Rightarrow>
          (case cs of
             [] \<Rightarrow> Inl (HALT vals)
           | caller # rest \<Rightarrow> Inr (caller\<lparr>estack := vals @ estack caller\<rparr> # rest)))"

text \<open>One step of the current context (the head of the invocation stack): the final
  state, or the invocation stack after the step.  The end of a script returns.\<close>

definition step :: "ExecContext \<Rightarrow> ExecContext list \<Rightarrow> (vm_state + ExecContext list)" where
  "step c cs =
     (case prog c of
        [] \<Rightarrow> unload c cs
      | RET # p \<Rightarrow> unload c cs
      | ABORT # p \<Rightarrow> Inl FAULT
      | PUSH n # p \<Rightarrow> Inr (c\<lparr>prog := p, estack := Integer n # estack c\<rparr> # cs)
      | DROP # p \<Rightarrow>
          (case estack c of
             [] \<Rightarrow> Inl FAULT
           | x # st \<Rightarrow> Inr (c\<lparr>prog := p, estack := st\<rparr> # cs))
      | ADD # p \<Rightarrow>
          (case estack c of
             Integer b # Integer a # st \<Rightarrow> Inr (c\<lparr>prog := p, estack := Integer (a + b) # st\<rparr> # cs)
           | _ \<Rightarrow> Inl FAULT))"

text \<open>The number of steps left at most: every step takes an instruction away or unloads
  a context.\<close>

definition steps_left :: "ExecContext list \<Rightarrow> nat" where
  "steps_left cs = sum_list (map (\<lambda>c. Suc (length (prog c))) cs)"

function run :: "ExecContext list \<Rightarrow> vm_state" where
  "run [] = HALT []"
| "run (c # cs) = (case step c cs of Inl final \<Rightarrow> final | Inr cs' \<Rightarrow> run cs')"
  by pat_completeness auto
termination
proof (relation "measure steps_left")
  show "wf (measure steps_left)"
    by simp
next
  fix c cs cs'
  assume "step c cs = Inr cs'"
  then show "(cs', c # cs) \<in> measure steps_left"
    by (auto simp: step_def unload_def steps_left_def
        split: list.splits Instr.splits option.splits Item.splits)
qed

text \<open>A method of a deployed contract as the manifest declares it: the instructions
  from its offset on, the number of its parameters, and whether it returns nothing.\<close>

record ContractMethod =
  method_code :: "Instr list"
  method_params :: nat
  method_void :: bool

text \<open>
  \<open>Contract.Call\<close>: the hash of the contract, the name of the method and the array of the
  arguments are popped from the stack of the caller, and a context for the method is
  pushed whose stack holds the arguments and nothing else.  The lookup of the contract
  and its method (with the permission checks) is the parameter \<open>methodOf\<close>.
\<close>

definition Contract_Call ::
  "(byte list \<Rightarrow> byte list \<Rightarrow> ContractMethod option) \<Rightarrow> ExecContext list
     \<Rightarrow> error + ExecContext list" where
  "Contract_Call methodOf cs =
     (case cs of
        [] \<Rightarrow> Inl (Panic ''no context'')
      | caller # rest \<Rightarrow>
          (case estack caller of
             ByteString h # ByteString name # Array args # st \<Rightarrow>
               (case methodOf h name of
                  None \<Rightarrow> Inl (Errorf ''method not found'')
                | Some m \<Rightarrow>
                    if length args \<noteq> method_params m
                    then Inl (Errorf ''invalid argument count'')
                    else Inr (\<lparr> prog = method_code m, estack = args,
                                retCount = Some (if method_void m then 0 else 1) \<rparr>
                              # caller\<lparr>estack := st\<rparr> # rest))
           | _ \<Rightarrow> Inl (Panic ''invalid arguments'')))"

text \<open>
  What a script does to a stack of its own, up to its return: the stack it leaves, or
  \<open>None\<close> when it faults.  It is the description the theorem compares a run with.
\<close>

fun exec :: "Instr list \<Rightarrow> Item list \<Rightarrow> Item list option" where
  "exec [] st = Some st"
| "exec (RET # p) st = Some st"
| "exec (ABORT # p) st = None"
| "exec (PUSH n # p) st = exec p (Integer n # st)"
| "exec (DROP # p) [] = None"
| "exec (DROP # p) (x # st) = exec p st"
| "exec (ADD # p) (Integer b # Integer a # st) = exec p (Integer (a + b) # st)"
| "exec (ADD # p) st = None"

subsection \<open>The contract of the test\<close>

definition bytes_of :: "string \<Rightarrow> byte list" where
  "bytes_of s = map (\<lambda>ch. word_of_nat (of_char ch)) s"

text \<open>The methods \<open>add\<close>, \<open>drop\<close>, \<open>invalidReturn\<close> and \<open>justReturn\<close> of the contract of
  \<open>getTestContractState\<close>, deployed under the hash \<open>[1]\<close>.\<close>

definition demo_methodOf :: "byte list \<Rightarrow> byte list \<Rightarrow> ContractMethod option" where
  "demo_methodOf h name =
     (if h \<noteq> [1] then None
      else if name = bytes_of ''add''
        then Some \<lparr> method_code = [ADD, RET], method_params = 2, method_void = False \<rparr>
      else if name = bytes_of ''drop''
        then Some \<lparr> method_code = [DROP, RET], method_params = 0, method_void = True \<rparr>
      else if name = bytes_of ''invalidReturn''
        then Some \<lparr> method_code = [PUSH 1, PUSH 2, RET], method_params = 0, method_void = False \<rparr>
      else if name = bytes_of ''justReturn''
        then Some \<lparr> method_code = [RET], method_params = 0, method_void = True \<rparr>
      else None)"

text \<open>The caller of the test: the script \<open>RET\<close>, with 42 below the three operands of
  \<open>Contract.Call\<close>.\<close>

definition demo_caller :: "string \<Rightarrow> Item list \<Rightarrow> ExecContext list" where
  "demo_caller name args =
     [\<lparr> prog = [RET],
        estack = [ByteString [1], ByteString (bytes_of name), Array args, Integer 42],
        retCount = None \<rparr>]"

section \<open>Theorems\<close>

subsection \<open>CreateMultiSigRedeemScript\<close>

lemma emitPublicKeys_append:
  assumes "\<And>buf bs. EmitBytes vm buf bs = Inr (buf @ encBytes bs)"
  shows "emitPublicKeys vm Bytes buf ks = Inr (buf @ concat (map (\<lambda>k. encBytes (Bytes k)) ks))"
  using assms by (induction ks arbitrary: buf) simp_all

text \<open>
  Claim C10.  Writing to the in-memory buffer does not fail: when every emitter appends
  its encoding to the buffer, \<open>CreateMultiSigRedeemScript\<close> returns an error exactly when
  \<open>m \<le> 1\<close>, or \<open>m\<close> exceeds the number of public keys, or \<open>m > 1024\<close>; otherwise it
  returns the script made of the emitted \<open>m\<close>, the emitted bytes of the public keys in
  sorted order (a sorted permutation of the given keys), the emitted number of keys and
  the \<open>CHECKMULTISIG\<close> opcode.
\<close>

theorem CreateMultiSigRedeemScript_spec:
  fixes Bytes :: "'k::linorder \<Rightarrow> byte list"
  assumes "\<And>buf i. EmitInt vm buf i = Inr (buf @ encInt i)"
    and "\<And>buf bs. EmitBytes vm buf bs = Inr (buf @ encBytes bs)"
    and "\<And>buf opc. EmitOpcode vm buf opc = Inr (buf @ encOp opc)"
  shows "(isl (CreateMultiSigRedeemScript vm Bytes m publicKeys)
            = (m \<le> 1 \<or> m > int (length publicKeys) \<or> m > 1024))
       \<and> (\<not> (m \<le> 1 \<or> m > int (length publicKeys) \<or> m > 1024) \<longrightarrow>
            CreateMultiSigRedeemScript vm Bytes m publicKeys =
              Inr (encInt m
                   @ concat (map (\<lambda>k. encBytes (Bytes k)) (sort publicKeys))
                   @ encInt (int (length publicKeys))
                   @ encOp (CHECKMULTISIG vm)))
       \<and> sorted (sort publicKeys) \<and> mset (sort publicKeys) = mset publicKeys"
  using assms
  by (simp add: CreateMultiSigRedeemScript_def emitPublicKeys_append [of vm encBytes])

theorem CreateMultiSigRedeemScript_witness:
  "CreateMultiSigRedeemScript plain_emit (\<lambda>k::nat. [word_of_nat k]) 2 [3, 1, 2]
     = Inr [2, 1, 1, 1, 2, 1, 3, 3, 0xAE]
   \<and> isl (CreateMultiSigRedeemScript plain_emit (\<lambda>k::nat. [word_of_nat k]) 1 [3, 1, 2])
   \<and> isl (CreateMultiSigRedeemScript plain_emit (\<lambda>k::nat. [word_of_nat k]) 4 [3, 1, 2])"
  using CreateMultiSigRedeemScript_spec
          [of plain_emit "\<lambda>i. [word_of_int i]" "\<lambda>bs. word_of_nat (length bs) # bs"
              "\<lambda>opc. [opc]" "\<lambda>k::nat. [word_of_nat k]" 2 "[3, 1, 2]"]
        CreateMultiSigRedeemScript_spec
          [of plain_emit "\<lambda>i. [word_of_int i]" "\<lambda>bs. word_of_nat (length bs) # bs"
              "\<lambda>opc. [opc]" "\<lambda>k::nat. [word_of_nat k]" 1 "[3, 1, 2]"]
        CreateMultiSigRedeemScript_spec
          [of plain_emit "\<lambda>i. [word_of_int i]" "\<lambda>bs. word_of_nat (length bs) # bs"
              "\<lambda>opc. [opc]" "\<lambda>k::nat. [word_of_nat k]" 4 "[3, 1, 2]"]
  by (simp add: plain_emit_def)

subsection \<open>checkMediaType\<close>

lemma typeAllowed_set: "typeAllowed allowed typ = (typ \<in> set allowed)"
  by (induction allowed) auto

text \<open>
  Claim C9.  For every content-type header, \<open>checkMediaType\<close> returns true when the list
  of allowed content types is empty; when the list is not empty it returns true exactly
  when the header parses (the parser returns no error) to a media type that is an element
  of the list, so it is false for a header that does not parse.
\<close>

theorem checkMediaType_spec:
  "checkMediaType ParseMediaType hdr allowed =
     (allowed = [] \<or>
      (snd (ParseMediaType hdr) = None \<and> fst (ParseMediaType hdr) \<in> set allowed))"
  by (cases "ParseMediaType hdr")
     (auto simp: checkMediaType_def typeAllowed_set split: option.splits)

subsection \<open>A run of processRequest in the concrete environment\<close>

lemmas demo_defs = demo_env_def demo_request_def demo_json_def demo_status_def
lemmas resp_defs = createResponse_def fetchResponse_def httpsResponse_def applyFilter_def
  checkMediaType_def neofs_URIScheme_def

lemma backupHeight_demo: "backupHeight 95 100 10 = Some 105"
  by (simp add: backupHeight.simps)

lemma createTxs_demo:
  "createTxs (demo_env demo_json) 1 (demo_request ''https://example/x'' None)
     \<lparr> RespID = 1, Code = Success, Result = [52, 50] \<rparr>
   = Some (Inr (demo_tx, demo_backupTx))"
  by (simp add: createTxs_def requestHeight_def demo_defs demo_tx_def demo_backupTx_def
      backupHeight_demo)

lemma processRequest_demo:
  "processRequest (demo_env demo_json) [1]
     \<lparr> ID = 1, Req = Some (demo_request ''https://example/x'' None) \<rparr> empty_Oracle
   = Some (None, demo_Oracle_sent)"
proof -
  have r: "createResponse (demo_env demo_json) [1] 1 (demo_request ''https://example/x'' None)
       newIncompleteTx
     = Inr \<lparr> RespID = 1, Code = Success, Result = [52, 50] \<rparr>"
    by (simp add: resp_defs demo_defs)
  have g: "getResponse empty_Oracle 1 True
     = (Some newIncompleteTx, empty_Oracle\<lparr>responses := (responses empty_Oracle)(1 := Some newIncompleteTx)\<rparr>)"
    by (simp add: getResponse_def empty_Oracle_def)
  show ?thesis
    apply (simp add: processRequest_def g r createTxs_demo)
    apply (simp add: finishRequest_def demo_env_def newIncompleteTx_def empty_Oracle_def
        sendTx_def SendResponse_def demo_sent_def demo_Oracle_sent_def Let_def)
    done
qed

lemma processFailedRequest_demo:
  "processFailedRequest (demo_env demo_json) [1] \<lparr> ID = 1, Req = None \<rparr> demo_Oracle_sent
   = (None, demo_Oracle_sent\<lparr>pooled := [Some demo_tx, Some demo_tx]\<rparr>)"
  by (simp add: processFailedRequest_def getResponse_def demo_Oracle_sent_def demo_sent_def
      sendTx_def)

lemma demo_env_latch:
  "\<forall>t. isSent (reverifyTx (demo_env x) t) = isSent t"
  "\<forall>t pub sg b. isSent (addResponse (demo_env x) t pub sg b) = isSent t"
  "\<forall>t ns b. isSent (fst (finalize (demo_env x) t ns b)) = isSent t"
  by (simp_all add: demo_env_def)

lemma demo_env_heights:
  "0 < MaxValidUntilBlockIncrement (demo_env x)"
  "unat (BlockHeight (demo_env x)) + unat (MaxValidUntilBlockIncrement (demo_env x)) < 2 ^ 32"
  by (simp_all add: demo_env_def)

subsection \<open>The response code of processRequest\<close>

lemma createResponse_Inr:
  assumes "createResponse env priv reqID r incTx = Inr resp"
  obtains resp0 where "fetchResponse env priv reqID r incTx = Inr resp0"
    and "resp = applyFilter env r resp0"
  using assms by (auto simp: createResponse_def split: sum.splits)

lemma applyFilter_not_Success: "Code resp0 \<noteq> Success \<Longrightarrow> applyFilter env r resp0 = resp0"
  by (simp add: applyFilter_def)

lemma applyFilter_Success:
  "Code resp0 = Success \<Longrightarrow>
   applyFilter env r resp0 =
     (case filterRequest env (Result resp0) r of
        (res, Some err) \<Rightarrow> resp0\<lparr>Result := res, Code := Error\<rparr>
      | (res, None) \<Rightarrow> resp0\<lparr>Result := res\<rparr>)"
  by (simp add: applyFilter_def)

lemma fetchResponse_parse_error:
  "isl (url_ParseRequestURI env (URL r)) \<Longrightarrow>
   fetchResponse env priv reqID r incTx =
     Inr \<lparr> RespID = reqID, Code = ProtocolNotSupported, Result = [] \<rparr>"
  by (cases "url_ParseRequestURI env (URL r)") (simp_all add: fetchResponse_def)

lemma fetchResponse_other_scheme:
  "url_ParseRequestURI env (URL r) = Inr u \<Longrightarrow> Scheme u \<noteq> ''https'' \<Longrightarrow>
   Scheme u \<noteq> ''neofs'' \<Longrightarrow>
   fetchResponse env priv reqID r incTx =
     Inr \<lparr> RespID = reqID, Code = ProtocolNotSupported, Result = [] \<rparr>"
  by (simp add: fetchResponse_def neofs_URIScheme_def)

lemma fetchResponse_https:
  "url_ParseRequestURI env (URL r) = Inr u \<Longrightarrow> Scheme u = ''https'' \<Longrightarrow>
   fetchResponse env priv reqID r incTx =
     Inr (httpsResponse env r \<lparr> RespID = reqID, Code = Success, Result = [] \<rparr>)"
  by (simp add: fetchResponse_def)

lemma httpsResponse_redirect:
  "http_NewRequest env (URL r) = None \<Longrightarrow> Client_Do env (URL r) = Inl ErrRestrictedRedirect \<Longrightarrow>
   httpsResponse env r resp = resp\<lparr>Code := Forbidden\<rparr>"
  by (simp add: httpsResponse_def)

lemma httpsResponse_status:
  "http_NewRequest env (URL r) = None \<Longrightarrow> Client_Do env (URL r) = Inr hr \<Longrightarrow>
   StatusCode hr \<noteq> 200 \<Longrightarrow>
   httpsResponse env r resp =
     resp\<lparr>Code := (if StatusCode hr = 403 then Forbidden
                   else if StatusCode hr = 404 then NotFound
                   else if StatusCode hr = 408 then Timeout else Error)\<rparr>"
  by (simp add: httpsResponse_def)

lemma httpsResponse_content_type:
  "http_NewRequest env (URL r) = None \<Longrightarrow> Client_Do env (URL r) = Inr hr \<Longrightarrow>
   StatusCode hr = 200 \<Longrightarrow>
   \<not> checkMediaType (mime_ParseMediaType env) (ContentType hr) (AllowedContentTypes env) \<Longrightarrow>
   httpsResponse env r resp = resp\<lparr>Code := ContentTypeNotSupported\<rparr>"
  by (simp add: httpsResponse_def)

lemma httpsResponse_too_large:
  "http_NewRequest env (URL r) = None \<Longrightarrow> Client_Do env (URL r) = Inr hr \<Longrightarrow>
   StatusCode hr = 200 \<Longrightarrow>
   checkMediaType (mime_ParseMediaType env) (ContentType hr) (AllowedContentTypes env) \<Longrightarrow>
   snd (readResponse env (Body hr) (MaxOracleResultSize env)) = Some ErrResponseTooLarge \<Longrightarrow>
   httpsResponse env r resp =
     resp\<lparr>Result := fst (readResponse env (Body hr) (MaxOracleResultSize env)),
          Code := ResponseTooLarge\<rparr>"
  by (cases "readResponse env (Body hr) (MaxOracleResultSize env)")
     (simp add: httpsResponse_def)

lemma httpsResponse_ok:
  "http_NewRequest env (URL r) = None \<Longrightarrow> Client_Do env (URL r) = Inr hr \<Longrightarrow>
   StatusCode hr = 200 \<Longrightarrow>
   checkMediaType (mime_ParseMediaType env) (ContentType hr) (AllowedContentTypes env) \<Longrightarrow>
   snd (readResponse env (Body hr) (MaxOracleResultSize env)) = None \<Longrightarrow>
   httpsResponse env r resp =
     resp\<lparr>Result := fst (readResponse env (Body hr) (MaxOracleResultSize env))\<rparr>"
  by (cases "readResponse env (Body hr) (MaxOracleResultSize env)")
     (simp add: httpsResponse_def)

text \<open>
  The code of the response that lines 113 to 187 compute, case by case.
\<close>

lemma createResponse_code:
  assumes "createResponse env priv reqID r incTx = Inr resp"
  shows
    "(isl (url_ParseRequestURI env (URL r)) \<longrightarrow> Code resp = ProtocolNotSupported)
   \<and> (\<forall>u. url_ParseRequestURI env (URL r) = Inr u \<and> Scheme u \<noteq> ''https''
            \<and> Scheme u \<noteq> ''neofs'' \<longrightarrow> Code resp = ProtocolNotSupported)
   \<and> (\<forall>u hr. url_ParseRequestURI env (URL r) = Inr u \<and> Scheme u = ''https''
            \<and> http_NewRequest env (URL r) = None \<longrightarrow>
          (Client_Do env (URL r) = Inl ErrRestrictedRedirect \<longrightarrow> Code resp = Forbidden)
        \<and> (Client_Do env (URL r) = Inr hr \<longrightarrow>
              (StatusCode hr = 200 \<longrightarrow>
                 (\<not> checkMediaType (mime_ParseMediaType env) (ContentType hr)
                       (AllowedContentTypes env)
                    \<longrightarrow> Code resp = ContentTypeNotSupported)
               \<and> (checkMediaType (mime_ParseMediaType env) (ContentType hr)
                       (AllowedContentTypes env) \<longrightarrow>
                    (snd (readResponse env (Body hr) (MaxOracleResultSize env))
                        = Some ErrResponseTooLarge \<longrightarrow> Code resp = ResponseTooLarge)
                  \<and> (snd (readResponse env (Body hr) (MaxOracleResultSize env)) = None \<longrightarrow>
                       (case filterRequest env
                               (fst (readResponse env (Body hr) (MaxOracleResultSize env))) r of
                          (res, None) \<Rightarrow> Code resp = Success \<and> Result resp = res
                        | (res, Some err) \<Rightarrow> Code resp = Error))))
            \<and> (StatusCode hr = 403 \<longrightarrow> Code resp = Forbidden)
            \<and> (StatusCode hr = 404 \<longrightarrow> Code resp = NotFound)
            \<and> (StatusCode hr = 408 \<longrightarrow> Code resp = Timeout)
            \<and> (StatusCode hr \<notin> {200, 403, 404, 408} \<longrightarrow> Code resp = Error)))
   \<and> (\<forall>resp0. fetchResponse env priv reqID r incTx = Inr resp0 \<longrightarrow>
          (Code resp0 = Success \<and> snd (filterRequest env (Result resp0) r) \<noteq> None
             \<longrightarrow> Code resp = Error)
        \<and> (Code resp0 = Success \<and> snd (filterRequest env (Result resp0) r) = None
             \<longrightarrow> Code resp = Success)
        \<and> (Code resp0 \<noteq> Success \<longrightarrow> resp = resp0))"
proof -
  from assms obtain resp0 where fetch: "fetchResponse env priv reqID r incTx = Inr resp0"
    and resp: "resp = applyFilter env r resp0"
    by (rule createResponse_Inr)
  let ?init = "\<lparr> RespID = reqID, Code = Success, Result = [] \<rparr>"
  let ?https = "\<lambda>hr.
          (Client_Do env (URL r) = Inl ErrRestrictedRedirect \<longrightarrow> Code resp = Forbidden)
        \<and> (Client_Do env (URL r) = Inr hr \<longrightarrow>
              (StatusCode hr = 200 \<longrightarrow>
                 (\<not> checkMediaType (mime_ParseMediaType env) (ContentType hr)
                       (AllowedContentTypes env)
                    \<longrightarrow> Code resp = ContentTypeNotSupported)
               \<and> (checkMediaType (mime_ParseMediaType env) (ContentType hr)
                       (AllowedContentTypes env) \<longrightarrow>
                    (snd (readResponse env (Body hr) (MaxOracleResultSize env))
                        = Some ErrResponseTooLarge \<longrightarrow> Code resp = ResponseTooLarge)
                  \<and> (snd (readResponse env (Body hr) (MaxOracleResultSize env)) = None \<longrightarrow>
                       (case filterRequest env
                               (fst (readResponse env (Body hr) (MaxOracleResultSize env))) r of
                          (res, None) \<Rightarrow> Code resp = Success \<and> Result resp = res
                        | (res, Some err) \<Rightarrow> Code resp = Error))))
            \<and> (StatusCode hr = 403 \<longrightarrow> Code resp = Forbidden)
            \<and> (StatusCode hr = 404 \<longrightarrow> Code resp = NotFound)
            \<and> (StatusCode hr = 408 \<longrightarrow> Code resp = Timeout)
            \<and> (StatusCode hr \<notin> {200, 403, 404, 408} \<longrightarrow> Code resp = Error))"
  let ?filter = "\<lambda>resp0.
          (Code resp0 = Success \<and> snd (filterRequest env (Result resp0) r) \<noteq> None
             \<longrightarrow> Code resp = Error)
        \<and> (Code resp0 = Success \<and> snd (filterRequest env (Result resp0) r) = None
             \<longrightarrow> Code resp = Success)
        \<and> (Code resp0 \<noteq> Success \<longrightarrow> resp = resp0)"
  have parse: "isl (url_ParseRequestURI env (URL r)) \<longrightarrow> Code resp = ProtocolNotSupported"
    using fetch resp by (auto simp: fetchResponse_parse_error applyFilter_not_Success)
  have other: "\<forall>u. url_ParseRequestURI env (URL r) = Inr u \<and> Scheme u \<noteq> ''https''
            \<and> Scheme u \<noteq> ''neofs'' \<longrightarrow> Code resp = ProtocolNotSupported"
    using fetch resp by (auto simp: fetchResponse_other_scheme applyFilter_not_Success)
  have filter: "?filter resp0"
    unfolding resp
    by (cases "filterRequest env (Result resp0) r")
       (auto simp: applyFilter_not_Success applyFilter_Success split: option.splits)
  have filter_all: "\<forall>resp0. fetchResponse env priv reqID r incTx = Inr resp0 \<longrightarrow> ?filter resp0"
  proof (intro allI impI)
    fix resp1
    assume "fetchResponse env priv reqID r incTx = Inr resp1"
    with fetch have "resp1 = resp0" by simp
    with filter show "?filter resp1" by simp
  qed
  have https: "?https hr"
    if u: "url_ParseRequestURI env (URL r) = Inr u" "Scheme u = ''https''"
      and nr: "http_NewRequest env (URL r) = None" for u hr
  proof -
    have r0: "resp0 = httpsResponse env r ?init"
      using fetch fetchResponse_https [OF u] by simp
    have a: "Code resp = Forbidden" if "Client_Do env (URL r) = Inl ErrRestrictedRedirect"
      using that nr by (simp add: resp r0 httpsResponse_redirect applyFilter_not_Success)
    have b: "Code resp = ContentTypeNotSupported"
      if "Client_Do env (URL r) = Inr hr" "StatusCode hr = 200"
        "\<not> checkMediaType (mime_ParseMediaType env) (ContentType hr) (AllowedContentTypes env)"
      using that nr by (simp add: resp r0 httpsResponse_content_type applyFilter_not_Success)
    have c: "Code resp = ResponseTooLarge"
      if "Client_Do env (URL r) = Inr hr" "StatusCode hr = 200"
        "checkMediaType (mime_ParseMediaType env) (ContentType hr) (AllowedContentTypes env)"
        "snd (readResponse env (Body hr) (MaxOracleResultSize env)) = Some ErrResponseTooLarge"
      using that nr by (simp add: resp r0 httpsResponse_too_large applyFilter_not_Success)
    have d: "case filterRequest env
                               (fst (readResponse env (Body hr) (MaxOracleResultSize env))) r of
                          (res, None) \<Rightarrow> Code resp = Success \<and> Result resp = res
                        | (res, Some err) \<Rightarrow> Code resp = Error"
      if "Client_Do env (URL r) = Inr hr" "StatusCode hr = 200"
        "checkMediaType (mime_ParseMediaType env) (ContentType hr) (AllowedContentTypes env)"
        "snd (readResponse env (Body hr) (MaxOracleResultSize env)) = None"
      using that nr
      by (simp add: resp r0 httpsResponse_ok applyFilter_Success split: prod.splits option.splits)
    have e: "Code resp = (if StatusCode hr = 403 then Forbidden
                   else if StatusCode hr = 404 then NotFound
                   else if StatusCode hr = 408 then Timeout else Error)"
      if "Client_Do env (URL r) = Inr hr" "StatusCode hr \<noteq> 200"
      using that nr by (simp add: resp r0 httpsResponse_status applyFilter_not_Success)
    show ?thesis
      using a b c d e by simp
  qed
  have https_all: "\<forall>u hr. url_ParseRequestURI env (URL r) = Inr u \<and> Scheme u = ''https''
            \<and> http_NewRequest env (URL r) = None \<longrightarrow> ?https hr"
  proof (intro allI impI)
    fix u hr
    assume "url_ParseRequestURI env (URL r) = Inr u \<and> Scheme u = ''https''
            \<and> http_NewRequest env (URL r) = None"
    then have "url_ParseRequestURI env (URL r) = Inr u" "Scheme u = ''https''"
      "http_NewRequest env (URL r) = None"
      by simp_all
    then show "?https hr" by (rule https)
  qed
  show ?thesis
    by (rule conjI [OF parse conjI [OF other conjI [OF https_all filter_all]]])
qed

subsection \<open>Valid-until heights of the two response transactions\<close>

lemma backupHeight_gt:
  assumes "backupHeight h cur inc = Some hb"
  shows "cur < hb"
  by (rule backupHeight.raw_induct [where P = "\<lambda>h cur inc hb. cur < hb", OF _ assms])
     (auto split: if_splits)

lemma backupHeight_terminates:
  assumes "0 < inc" and "unat cur + unat inc < 2 ^ 32"
  shows "\<exists>hb. backupHeight h cur inc = Some hb"
proof (induction "Suc (unat cur) - unat h" arbitrary: h rule: less_induct)
  case less
  show ?case
  proof (cases "h \<le> cur")
    case False
    then show ?thesis by (subst backupHeight.simps) simp
  next
    case True
    then have le: "unat h \<le> unat cur" by (simp add: word_le_nat_alt)
    with assms have "unat h + unat inc < 2 ^ 32" by simp
    then have sum: "unat (h + inc) = unat h + unat inc"
      by (simp add: unat_word_ariths)
    from assms(1) have "0 < unat inc" by (simp add: word_greater_zero_iff unat_gt_0)
    with sum le have "Suc (unat cur) - unat (h + inc) < Suc (unat cur) - unat h" by simp
    from less [OF this] obtain hb where "backupHeight (h + inc) cur inc = Some hb" by blast
    with True show ?thesis by (subst backupHeight.simps) simp
  qed
qed

lemma requestHeight_Inr:
  "requestHeight env r = Inr h0 \<Longrightarrow>
   (\<forall>h. GetTransaction env (OriginalTxID r) = Inr h \<longrightarrow> h0 = h)
   \<and> (GetTransaction env (OriginalTxID r) = Inl ErrKeyNotFound \<longrightarrow> h0 = BlockHeight env)
   \<and> ((\<exists>h. GetTransaction env (OriginalTxID r) = Inr h)
        \<or> GetTransaction env (OriginalTxID r) = Inl ErrKeyNotFound)"
  by (cases "GetTransaction env (OriginalTxID r)")
     (auto simp: requestHeight_def split: if_splits)

lemma createTxs_heights:
  assumes vub: "\<forall>gas v rs t. CreateResponseTx env gas v rs = Inr t \<longrightarrow> ValidUntilBlock t = v"
    and ok: "createTxs env reqID r resp = Some (Inr (t, bt))"
  shows "\<exists>h0. requestHeight env r = Inr h0
          \<and> ValidUntilBlock t = h0 + MaxValidUntilBlockIncrement env
          \<and> BlockHeight env < ValidUntilBlock bt"
proof -
  from ok obtain h0 where h0: "requestHeight env r = Inr h0"
    by (cases "requestHeight env r") (auto simp: createTxs_def)
  let ?h = "h0 + MaxValidUntilBlockIncrement env"
  from ok h0 have t: "CreateResponseTx env (sint (GasForResponse r)) ?h resp = Inr t"
    by (auto simp: createTxs_def Let_def split: sum.splits option.splits)
  from ok h0 t obtain hb where
    hb: "backupHeight ?h (BlockHeight env) (MaxValidUntilBlockIncrement env) = Some hb"
    by (auto simp: createTxs_def Let_def split: sum.splits option.splits)
  from ok h0 t hb have
    bt: "CreateResponseTx env (sint (GasForResponse r)) hb (getFailedResponse reqID) = Inr bt"
    by (auto simp: createTxs_def Let_def split: sum.splits option.splits)
  from vub t bt have "ValidUntilBlock t = ?h" "ValidUntilBlock bt = hb" by blast+
  with backupHeight_gt [OF hb] h0 show ?thesis by simp
qed

lemma createTxs_returns:
  assumes "0 < MaxValidUntilBlockIncrement env"
    and "unat (BlockHeight env) + unat (MaxValidUntilBlockIncrement env) < 2 ^ 32"
  shows "createTxs env reqID r resp \<noteq> None"
proof -
  have nn: "(backupHeight h (BlockHeight env) (MaxValidUntilBlockIncrement env) = None) = False"
    for h
    using backupHeight_terminates [OF assms, of h] by auto
  show ?thesis
    by (simp add: nn createTxs_def Let_def split: sum.splits option.splits)
qed

lemma processRequest_success:
  assumes "Req req = Some r" and "getResponse orc (ID req) True = (Some incTx, orc0)"
    and "processRequest env priv req orc = Some (None, orc')"
  shows "\<exists>resp t bt. createResponse env priv (ID req) r incTx = Inr resp
           \<and> createTxs env (ID req) r resp = Some (Inr (t, bt))
           \<and> orc' = finishRequest env priv req r resp t bt incTx orc0"
  using assms
  by (auto simp: processRequest_def split: sum.splits option.splits)

lemma processRequest_returns:
  assumes "0 < MaxValidUntilBlockIncrement env"
    and "unat (BlockHeight env) + unat (MaxValidUntilBlockIncrement env) < 2 ^ 32"
  shows "processRequest env priv req orc \<noteq> None"
proof -
  have nn: "(createTxs env reqID r resp = None) = False" for reqID r resp
    using createTxs_returns [OF assms, of reqID r resp] by simp
  show ?thesis
    by (simp add: nn processRequest_def split: sum.splits option.splits prod.splits)
qed

text \<open>
  Claim C7.  Provided \<open>CreateResponseTx\<close> (not in the sources) sets the valid-until
  height of the transaction it makes to the height it is given: for every request that
  \<open>processRequest\<close> processes without an error (the request has a body, its entry is
  there, and the call returns nil), the primary transaction is valid until the height of
  the request transaction plus \<open>MaxValidUntilBlockIncrement\<close>, with the current height in
  place of the request's when the request transaction is not found (\<open>ErrKeyNotFound\<close>),
  and the backup transaction is valid until a height strictly above the current height.
  Heights are \<open>uint32\<close>: the sum is the wrapping sum of the code.  The call returns
  whenever the increment is positive and the current height plus the increment does not
  overflow.
\<close>

theorem processRequest_valid_until:
  assumes "\<forall>gas v rs t. CreateResponseTx env gas v rs = Inr t \<longrightarrow> ValidUntilBlock t = v"
  shows
    "(\<forall>r incTx orc0 orc'.
        Req req = Some r \<and> getResponse orc (ID req) True = (Some incTx, orc0)
        \<and> processRequest env priv req orc = Some (None, orc') \<longrightarrow>
        (\<exists>resp t bt.
            createResponse env priv (ID req) r incTx = Inr resp
          \<and> createTxs env (ID req) r resp = Some (Inr (t, bt))
          \<and> orc' = finishRequest env priv req r resp t bt incTx orc0
          \<and> (\<forall>h. GetTransaction env (OriginalTxID r) = Inr h \<longrightarrow>
                 ValidUntilBlock t = h + MaxValidUntilBlockIncrement env)
          \<and> (GetTransaction env (OriginalTxID r) = Inl ErrKeyNotFound \<longrightarrow>
                 ValidUntilBlock t = BlockHeight env + MaxValidUntilBlockIncrement env)
          \<and> ((\<exists>h. GetTransaction env (OriginalTxID r) = Inr h)
               \<or> GetTransaction env (OriginalTxID r) = Inl ErrKeyNotFound)
          \<and> BlockHeight env < ValidUntilBlock bt))
   \<and> (0 < MaxValidUntilBlockIncrement env
        \<and> unat (BlockHeight env) + unat (MaxValidUntilBlockIncrement env) < 2 ^ 32
        \<longrightarrow> processRequest env priv req orc \<noteq> None)"
proof (intro conjI allI impI)
  fix r incTx orc0 orc'
  assume a: "Req req = Some r \<and> getResponse orc (ID req) True = (Some incTx, orc0)
        \<and> processRequest env priv req orc = Some (None, orc')"
  then obtain resp t bt where resp: "createResponse env priv (ID req) r incTx = Inr resp"
    and txs: "createTxs env (ID req) r resp = Some (Inr (t, bt))"
    and fin: "orc' = finishRequest env priv req r resp t bt incTx orc0"
    using processRequest_success [of req r orc incTx orc0 env priv orc'] by blast
  from createTxs_heights [OF assms txs] obtain h0 where h0: "requestHeight env r = Inr h0"
    and t: "ValidUntilBlock t = h0 + MaxValidUntilBlockIncrement env"
    and bt: "BlockHeight env < ValidUntilBlock bt"
    by blast
  from requestHeight_Inr [OF h0] t bt resp txs fin
  show "\<exists>resp t bt.
            createResponse env priv (ID req) r incTx = Inr resp
          \<and> createTxs env (ID req) r resp = Some (Inr (t, bt))
          \<and> orc' = finishRequest env priv req r resp t bt incTx orc0
          \<and> (\<forall>h. GetTransaction env (OriginalTxID r) = Inr h \<longrightarrow>
                 ValidUntilBlock t = h + MaxValidUntilBlockIncrement env)
          \<and> (GetTransaction env (OriginalTxID r) = Inl ErrKeyNotFound \<longrightarrow>
                 ValidUntilBlock t = BlockHeight env + MaxValidUntilBlockIncrement env)
          \<and> ((\<exists>h. GetTransaction env (OriginalTxID r) = Inr h)
               \<or> GetTransaction env (OriginalTxID r) = Inl ErrKeyNotFound)
          \<and> BlockHeight env < ValidUntilBlock bt"
    by (intro exI [of _ resp] exI [of _ t] exI [of _ bt]) simp
next
  assume "0 < MaxValidUntilBlockIncrement env
        \<and> unat (BlockHeight env) + unat (MaxValidUntilBlockIncrement env) < 2 ^ 32"
  then show "processRequest env priv req orc \<noteq> None"
    using processRequest_returns by blast
qed

theorem processRequest_valid_until_witness:
  "processRequest (demo_env demo_json) [1]
     \<lparr> ID = 1, Req = Some (demo_request ''https://example/x'' None) \<rparr> empty_Oracle
     = Some (None, demo_Oracle_sent)
   \<and> (\<exists>resp t bt.
         createTxs (demo_env demo_json) 1 (demo_request ''https://example/x'' None) resp
           = Some (Inr (t, bt))
       \<and> ValidUntilBlock t = 85 + 10 \<and> (100 :: u32) < ValidUntilBlock bt)"
proof -
  let ?env = "demo_env demo_json"
  let ?r = "demo_request ''https://example/x'' None"
  let ?req = "\<lparr> ID = 1, Req = Some ?r \<rparr>"
  have vub: "\<forall>gas v rs t. CreateResponseTx ?env gas v rs = Inr t \<longrightarrow> ValidUntilBlock t = v"
    by (auto simp: demo_env_def)
  have g: "getResponse empty_Oracle (ID ?req) True
     = (Some newIncompleteTx,
        empty_Oracle\<lparr>responses := (responses empty_Oracle)(1 := Some newIncompleteTx)\<rparr>)"
    by (simp add: getResponse_def empty_Oracle_def)
  have gt: "GetTransaction ?env (OriginalTxID ?r) = Inr 85" "BlockHeight ?env = 100"
    "MaxValidUntilBlockIncrement ?env = 10"
    by (simp_all add: demo_env_def demo_request_def)
  from processRequest_valid_until
         [where env = ?env and priv = "[1]" and req = ?req and orc = empty_Oracle, OF vub]
  have "\<exists>resp t bt.
            createTxs ?env (ID ?req) ?r resp = Some (Inr (t, bt))
          \<and> (\<forall>h. GetTransaction ?env (OriginalTxID ?r) = Inr h \<longrightarrow>
                 ValidUntilBlock t = h + MaxValidUntilBlockIncrement ?env)
          \<and> BlockHeight ?env < ValidUntilBlock bt"
    using g processRequest_demo by fastforce
  then have "\<exists>resp t bt. createTxs ?env 1 ?r resp = Some (Inr (t, bt))
       \<and> ValidUntilBlock t = 85 + 10 \<and> (100 :: u32) < ValidUntilBlock bt"
    unfolding gt by simp
  with processRequest_demo show ?thesis by simp
qed

subsection \<open>The response code, as processRequest sends it\<close>

lemma getResponse_broadcast:
  "getResponse orc reqID create = (x, orc0) \<Longrightarrow> broadcast orc0 = broadcast orc"
  by (auto simp: getResponse_def split: option.splits if_splits)

lemma finishRequest_broadcast:
  "broadcast (finishRequest env priv req r resp t bt incTx orc0)
     = broadcast orc0 @ [(resp, SignHashable env priv t)]"
  by (simp add: finishRequest_def Let_def sendTx_def SendResponse_def split: prod.splits)

lemma httpsResponse_RespID: "RespID (httpsResponse env r resp) = RespID resp"
  by (simp add: httpsResponse_def split: option.splits sum.splits prod.splits)

lemma applyFilter_RespID: "RespID (applyFilter env r resp) = RespID resp"
  by (simp add: applyFilter_def split: option.splits prod.splits)

lemma fetchResponse_RespID:
  "fetchResponse env priv reqID r incTx = Inr resp \<Longrightarrow> RespID resp = reqID"
  by (auto simp: fetchResponse_def neofsResponse_def httpsResponse_RespID Let_def
      split: sum.splits if_splits option.splits prod.splits)

lemma createResponse_RespID:
  "createResponse env priv reqID r incTx = Inr resp \<Longrightarrow> RespID resp = reqID"
  by (auto simp: createResponse_def applyFilter_RespID fetchResponse_RespID split: sum.splits)

text \<open>
  Claim C2.  Let \<open>processRequest\<close> process a request with a body whose entry is there, and
  return nil.  Then it has sent exactly one response, the last entry of the log of
  \<open>SendResponse\<close>; the response carries the id of the request, it is the one the two
  transactions are made for, and its code is as follows.  A URL that does not parse, or
  whose scheme is neither \<open>https\<close> nor \<open>neofs\<close>, gives \<open>ProtocolNotSupported\<close>.  For an
  \<open>https\<close> URL whose request could be made: a restricted-redirect error of the client
  gives \<open>Forbidden\<close>; status 200 gives \<open>ContentTypeNotSupported\<close> when the content type
  is not allowed, \<open>ResponseTooLarge\<close> when reading the body reports an oversize body, and
  otherwise \<open>Success\<close> with the filtered body, or \<open>Error\<close> when the filter fails; 403
  gives \<open>Forbidden\<close>, 404 \<open>NotFound\<close>, 408 \<open>Timeout\<close>, any other status \<open>Error\<close>.
  Whatever the scheme, a code that is \<open>Success\<close> before the filter becomes \<open>Error\<close> when
  the filter fails and stays \<open>Success\<close> when it does not, and any other code is left as
  it is.
\<close>

theorem processRequest_response_code:
  assumes "Req req = Some r"
    and "getResponse orc (ID req) True = (Some incTx, orc0)"
    and "processRequest env priv req orc = Some (None, orc')"
  shows
    "\<exists>resp txSig t bt.
       broadcast orc' = broadcast orc @ [(resp, txSig)]
     \<and> RespID resp = ID req
     \<and> createTxs env (ID req) r resp = Some (Inr (t, bt))
     \<and> (isl (url_ParseRequestURI env (URL r)) \<longrightarrow> Code resp = ProtocolNotSupported)
        \<and> (\<forall>u. url_ParseRequestURI env (URL r) = Inr u \<and> Scheme u \<noteq> ''https''
                 \<and> Scheme u \<noteq> ''neofs'' \<longrightarrow> Code resp = ProtocolNotSupported)
        \<and> (\<forall>u hr. url_ParseRequestURI env (URL r) = Inr u \<and> Scheme u = ''https''
                 \<and> http_NewRequest env (URL r) = None \<longrightarrow>
               (Client_Do env (URL r) = Inl ErrRestrictedRedirect \<longrightarrow> Code resp = Forbidden)
             \<and> (Client_Do env (URL r) = Inr hr \<longrightarrow>
                   (StatusCode hr = 200 \<longrightarrow>
                      (\<not> checkMediaType (mime_ParseMediaType env) (ContentType hr)
                            (AllowedContentTypes env)
                         \<longrightarrow> Code resp = ContentTypeNotSupported)
                    \<and> (checkMediaType (mime_ParseMediaType env) (ContentType hr)
                            (AllowedContentTypes env) \<longrightarrow>
                         (snd (readResponse env (Body hr) (MaxOracleResultSize env))
                             = Some ErrResponseTooLarge \<longrightarrow> Code resp = ResponseTooLarge)
                       \<and> (snd (readResponse env (Body hr) (MaxOracleResultSize env)) = None \<longrightarrow>
                            (case filterRequest env
                                    (fst (readResponse env (Body hr) (MaxOracleResultSize env))) r of
                               (res, None) \<Rightarrow> Code resp = Success \<and> Result resp = res
                             | (res, Some err) \<Rightarrow> Code resp = Error))))
                 \<and> (StatusCode hr = 403 \<longrightarrow> Code resp = Forbidden)
                 \<and> (StatusCode hr = 404 \<longrightarrow> Code resp = NotFound)
                 \<and> (StatusCode hr = 408 \<longrightarrow> Code resp = Timeout)
                 \<and> (StatusCode hr \<notin> {200, 403, 404, 408} \<longrightarrow> Code resp = Error)))
        \<and> (\<forall>resp0. fetchResponse env priv (ID req) r incTx = Inr resp0 \<longrightarrow>
               (Code resp0 = Success \<and> snd (filterRequest env (Result resp0) r) \<noteq> None
                  \<longrightarrow> Code resp = Error)
             \<and> (Code resp0 = Success \<and> snd (filterRequest env (Result resp0) r) = None
                  \<longrightarrow> Code resp = Success)
             \<and> (Code resp0 \<noteq> Success \<longrightarrow> resp = resp0))"
proof -
  from processRequest_success [OF assms] obtain resp t bt where
    cr: "createResponse env priv (ID req) r incTx = Inr resp" and
    txs: "createTxs env (ID req) r resp = Some (Inr (t, bt))" and
    fin: "orc' = finishRequest env priv req r resp t bt incTx orc0"
    by blast
  have b: "broadcast orc' = broadcast orc @ [(resp, SignHashable env priv t)]"
    unfolding fin finishRequest_broadcast
    using getResponse_broadcast [OF assms(2)] by simp
  have i: "RespID resp = ID req"
    using cr by (rule createResponse_RespID)
  note code = createResponse_code [OF cr]
  show ?thesis
    by (rule exI [of _ resp], rule exI [of _ "SignHashable env priv t"], rule exI [of _ t],
        rule exI [of _ bt], rule conjI [OF b conjI [OF i conjI [OF txs code]]])
qed

text \<open>Five requests in the concrete environment: the answer 200 with a JSON body, the
  same with a filter that fails, a restricted redirect, the status 404, and a URL with
  the scheme \<open>ftp\<close>.\<close>

lemma processRequest_demo_code:
  "\<exists>orc'. processRequest (demo_env demo_json) [1]
             \<lparr> ID = 1, Req = Some (demo_request ''https://example/x'' (Some ''$.v'')) \<rparr>
             empty_Oracle = Some (None, orc')
         \<and> map fst (broadcast orc') = [\<lparr> RespID = 1, Code = Error, Result = [] \<rparr>]"
  "\<exists>orc'. processRequest (demo_env (Inl ErrRestrictedRedirect)) [1]
             \<lparr> ID = 1, Req = Some (demo_request ''https://example/x'' None) \<rparr>
             empty_Oracle = Some (None, orc')
         \<and> map fst (broadcast orc') = [\<lparr> RespID = 1, Code = Forbidden, Result = [] \<rparr>]"
  "\<exists>orc'. processRequest (demo_env (demo_status 404)) [1]
             \<lparr> ID = 1, Req = Some (demo_request ''https://example/x'' None) \<rparr>
             empty_Oracle = Some (None, orc')
         \<and> map fst (broadcast orc') = [\<lparr> RespID = 1, Code = NotFound, Result = [] \<rparr>]"
  "\<exists>orc'. processRequest (demo_env demo_json) [1]
             \<lparr> ID = 1, Req = Some (demo_request ''ftp://example/x'' None) \<rparr>
             empty_Oracle = Some (None, orc')
         \<and> map fst (broadcast orc')
             = [\<lparr> RespID = 1, Code = ProtocolNotSupported, Result = [] \<rparr>]"
  by (simp_all add: processRequest_def getResponse_def empty_Oracle_def resp_defs
      createTxs_def requestHeight_def backupHeight_demo finishRequest_broadcast demo_defs)

theorem processRequest_response_code_witness:
  "processRequest (demo_env demo_json) [1]
     \<lparr> ID = 1, Req = Some (demo_request ''https://example/x'' None) \<rparr> empty_Oracle
     = Some (None, demo_Oracle_sent)
   \<and> map fst (broadcast demo_Oracle_sent) = [\<lparr> RespID = 1, Code = Success, Result = [52, 50] \<rparr>]
   \<and> (\<exists>orc'. processRequest (demo_env demo_json) [1]
             \<lparr> ID = 1, Req = Some (demo_request ''https://example/x'' (Some ''$.v'')) \<rparr>
             empty_Oracle = Some (None, orc')
         \<and> map fst (broadcast orc') = [\<lparr> RespID = 1, Code = Error, Result = [] \<rparr>])
   \<and> (\<exists>orc'. processRequest (demo_env (Inl ErrRestrictedRedirect)) [1]
             \<lparr> ID = 1, Req = Some (demo_request ''https://example/x'' None) \<rparr>
             empty_Oracle = Some (None, orc')
         \<and> map fst (broadcast orc') = [\<lparr> RespID = 1, Code = Forbidden, Result = [] \<rparr>])
   \<and> (\<exists>orc'. processRequest (demo_env (demo_status 404)) [1]
             \<lparr> ID = 1, Req = Some (demo_request ''https://example/x'' None) \<rparr>
             empty_Oracle = Some (None, orc')
         \<and> map fst (broadcast orc') = [\<lparr> RespID = 1, Code = NotFound, Result = [] \<rparr>])
   \<and> (\<exists>orc'. processRequest (demo_env demo_json) [1]
             \<lparr> ID = 1, Req = Some (demo_request ''ftp://example/x'' None) \<rparr>
             empty_Oracle = Some (None, orc')
         \<and> map fst (broadcast orc')
             = [\<lparr> RespID = 1, Code = ProtocolNotSupported, Result = [] \<rparr>])"
proof -
  let ?r = "demo_request ''https://example/x'' None"
  let ?req = "\<lparr> ID = 1, Req = Some ?r \<rparr>"
  have g: "getResponse empty_Oracle (ID ?req) True
     = (Some newIncompleteTx,
        empty_Oracle\<lparr>responses := (responses empty_Oracle)(1 := Some newIncompleteTx)\<rparr>)"
    by (simp add: getResponse_def empty_Oracle_def)
  have p: "processRequest (demo_env demo_json) [1] ?req empty_Oracle
     = Some (None, demo_Oracle_sent)"
    by (rule processRequest_demo)
  have q: "Req ?req = Some ?r"
    by simp
  from processRequest_response_code [OF q g p] obtain resp txSig where
    b: "broadcast demo_Oracle_sent = broadcast empty_Oracle @ [(resp, txSig)]" and
    i: "RespID resp = 1" and
    c: "Code resp = Success \<and> Result resp = [52, 50]"
    by (auto simp: demo_defs checkMediaType_def)
  from i c have "resp = \<lparr> RespID = 1, Code = Success, Result = [52, 50] \<rparr>"
    by simp
  with b have "map fst (broadcast demo_Oracle_sent)
      = [\<lparr> RespID = 1, Code = Success, Result = [52, 50] \<rparr>]"
    by (simp add: empty_Oracle_def)
  with p processRequest_demo_code show ?thesis
    by blast
qed

subsection \<open>Pooling of the finished transaction\<close>

lemma getResponse_present:
  "responses orc reqID = Some incTx \<Longrightarrow> getResponse orc reqID create = (Some incTx, orc)"
  by (simp add: getResponse_def)

lemma getResponse_frame:
  assumes "getResponse orc reqID create = (x, orc0)"
  shows "pooled orc0 = pooled orc"
    and "x = Some incTx \<Longrightarrow> responses orc reqID = None \<Longrightarrow> \<not> isSent incTx"
    and "x = Some incTx \<Longrightarrow> responses orc reqID = Some old \<Longrightarrow> incTx = old"
    and "x = None \<Longrightarrow> orc0 = orc"
  using assms
  by (auto simp: getResponse_def newIncompleteTx_def split: option.splits if_splits)

lemma finishRequest_latch:
  assumes rv: "\<forall>t. isSent (reverifyTx env t) = isSent t"
    and ar: "\<forall>t pub sg b. isSent (addResponse env t pub sg b) = isSent t"
    and fz: "\<forall>t ns b. isSent (fst (finalize env t ns b)) = isSent t"
  shows "\<exists>incTx'. responses (finishRequest env priv req r resp t bt incTx orc) (ID req) = Some incTx'
           \<and> (isSent incTx \<longrightarrow>
                 isSent incTx' \<and> pooled (finishRequest env priv req r resp t bt incTx orc) = pooled orc)
           \<and> (\<not> isSent incTx \<longrightarrow>
                 pooled (finishRequest env priv req r resp t bt incTx orc) = pooled orc
               \<or> (\<exists>p. pooled (finishRequest env priv req r resp t bt incTx orc) = pooled orc @ [p]
                       \<and> isSent incTx'))"
proof -
  let ?i3 = "addResponse env
               (addResponse env
                  (reverifyTx env (incTx\<lparr>request := Some r, tx := Some t, backupTx := Some bt\<rparr>))
                  (PublicKeyOf env priv) (SignHashable env priv t) False)
               (PublicKeyOf env priv) (SignHashable env priv bt) True"
  obtain i4 readyTx ready0 where f: "finalize env ?i3 (getOracleNodes env) False = (i4, readyTx, ready0)"
    by (cases "finalize env ?i3 (getOracleNodes env) False") auto
  have "isSent ?i3 = isSent incTx" using rv ar by simp
  moreover have "isSent i4 = isSent ?i3" using fz [rule_format, of ?i3 "getOracleNodes env" False] f by simp
  ultimately have i4: "isSent i4 = isSent incTx" by simp
  show ?thesis
    by (simp add: finishRequest_def Let_def f i4 sendTx_def SendResponse_def)
qed

lemma processFailedRequest_latched:
  assumes "responses orc (ID req) = Some incTx" and "isSent incTx"
  shows "processFailedRequest env priv req orc = (None, orc\<lparr>pooled := pooled orc @ [tx incTx]\<rparr>)"
  using assms by (simp add: processFailedRequest_def getResponse_present sendTx_def)

lemma processFailedRequest_unlatched:
  assumes fz: "\<forall>t ns b. isSent (fst (finalize env t ns b)) = isSent t"
    and none: "\<forall>incTx. responses orc (ID req) = Some incTx \<longrightarrow> \<not> isSent incTx"
    and run: "processFailedRequest env priv req orc = (e, orc')"
  shows "pooled orc' = pooled orc
       \<or> (\<exists>p incTx'. pooled orc' = pooled orc @ [p]
              \<and> responses orc' (ID req) = Some incTx' \<and> isSent incTx')"
proof (cases "responses orc (ID req)")
  case None
  with run show ?thesis by (simp add: processFailedRequest_def getResponse_def)
next
  case (Some incTx)
  with none have ns: "\<not> isSent incTx" by simp
  obtain i1 readyTx ready0 where f: "finalize env incTx (getOracleNodes env) True = (i1, readyTx, ready0)"
    by (cases "finalize env incTx (getOracleNodes env) True") auto
  have i1: "\<not> isSent i1"
    using fz [rule_format, of incTx "getOracleNodes env" True] f ns by simp
  from run show ?thesis
    by (cases ready0)
       (auto simp: processFailedRequest_def getResponse_present [OF Some] ns f i1 Let_def
          sendTx_def SendResponse_def split: sum.splits)
qed

text \<open>
  Claim C1, as amended.  Provided the methods of \<open>incompleteTx\<close> that are not in the
  sources (\<open>reverifyTx\<close>, \<open>addResponse\<close>, \<open>finalize\<close>) leave the latch \<open>isSent\<close> as it
  is: once the latch of the entry of a request id is set, a call of \<open>processRequest\<close>
  with the request body pools nothing and leaves the latch set, while a call for the same
  id without a body (which is \<open>processFailedRequest\<close>) pools the transaction \<open>tx\<close> of the
  entry once more; and a call that finds no entry or an entry whose latch is not set pools
  at most one transaction, and only together with setting the latch.
\<close>

theorem processRequest_pools_once:
  assumes rv: "\<forall>t. isSent (reverifyTx env t) = isSent t"
    and ar: "\<forall>t pub sg b. isSent (addResponse env t pub sg b) = isSent t"
    and fz: "\<forall>t ns b. isSent (fst (finalize env t ns b)) = isSent t"
  shows
    "(\<forall>incTx r e orc'.
        responses orc (ID req) = Some incTx \<and> isSent incTx \<and> Req req = Some r
        \<and> processRequest env priv req orc = Some (e, orc') \<longrightarrow>
        pooled orc' = pooled orc
        \<and> (\<exists>incTx'. responses orc' (ID req) = Some incTx' \<and> isSent incTx'))
   \<and> (\<forall>incTx.
        responses orc (ID req) = Some incTx \<and> isSent incTx \<and> Req req = None \<longrightarrow>
        processRequest env priv req orc
          = Some (None, orc\<lparr>pooled := pooled orc @ [tx incTx]\<rparr>))
   \<and> (\<forall>e orc'.
        (\<forall>incTx. responses orc (ID req) = Some incTx \<longrightarrow> \<not> isSent incTx)
        \<and> processRequest env priv req orc = Some (e, orc') \<longrightarrow>
        pooled orc' = pooled orc
        \<or> (\<exists>p incTx'. pooled orc' = pooled orc @ [p]
               \<and> responses orc' (ID req) = Some incTx' \<and> isSent incTx'))"
proof -
  have latched: "\<forall>incTx r e orc'.
        responses orc (ID req) = Some incTx \<and> isSent incTx \<and> Req req = Some r
        \<and> processRequest env priv req orc = Some (e, orc') \<longrightarrow>
        pooled orc' = pooled orc
        \<and> (\<exists>incTx'. responses orc' (ID req) = Some incTx' \<and> isSent incTx')"
  proof (intro allI impI)
    fix incTx r e orc'
    assume a: "responses orc (ID req) = Some incTx \<and> isSent incTx \<and> Req req = Some r
        \<and> processRequest env priv req orc = Some (e, orc')"
    then have g: "getResponse orc (ID req) True = (Some incTx, orc)"
      by (simp add: getResponse_present)
    from finishRequest_latch [OF rv ar fz, of priv req r _ _ _ incTx orc] a
    have fin: "pooled (finishRequest env priv req r resp t bt incTx orc) = pooled orc
      \<and> (\<exists>incTx'. responses (finishRequest env priv req r resp t bt incTx orc) (ID req) = Some incTx'
            \<and> isSent incTx')" for resp t bt
      by blast
    from a show "pooled orc' = pooled orc
        \<and> (\<exists>incTx'. responses orc' (ID req) = Some incTx' \<and> isSent incTx')"
      by (auto simp: processRequest_def g fin split: sum.splits option.splits)
  qed
  have again: "\<forall>incTx.
        responses orc (ID req) = Some incTx \<and> isSent incTx \<and> Req req = None \<longrightarrow>
        processRequest env priv req orc
          = Some (None, orc\<lparr>pooled := pooled orc @ [tx incTx]\<rparr>)"
    by (simp add: processRequest_def processFailedRequest_latched)
  have unlatched: "\<forall>e orc'.
        (\<forall>incTx. responses orc (ID req) = Some incTx \<longrightarrow> \<not> isSent incTx)
        \<and> processRequest env priv req orc = Some (e, orc') \<longrightarrow>
        pooled orc' = pooled orc
        \<or> (\<exists>p incTx'. pooled orc' = pooled orc @ [p]
               \<and> responses orc' (ID req) = Some incTx' \<and> isSent incTx')"
  proof (intro allI impI)
    fix e orc'
    assume a: "(\<forall>incTx. responses orc (ID req) = Some incTx \<longrightarrow> \<not> isSent incTx)
        \<and> processRequest env priv req orc = Some (e, orc')"
    show "pooled orc' = pooled orc
        \<or> (\<exists>p incTx'. pooled orc' = pooled orc @ [p]
               \<and> responses orc' (ID req) = Some incTx' \<and> isSent incTx')"
    proof (cases "Req req")
      case None
      with a have "processFailedRequest env priv req orc = (e, orc')"
        by (simp add: processRequest_def)
      with a fz show ?thesis
        using processFailedRequest_unlatched [of env orc req priv e orc'] by blast
    next
      case (Some r)
      obtain x orc0 where g: "getResponse orc (ID req) True = (x, orc0)"
        by (cases "getResponse orc (ID req) True") auto
      note fr = getResponse_frame [OF g]
      show ?thesis
      proof (cases x)
        case None
        with a \<open>Req req = Some r\<close> g fr show ?thesis by (simp add: processRequest_def)
      next
        case (Some incTx)
        have ns: "\<not> isSent incTx"
          using a fr(2) [OF Some] fr(3) [OF Some] by (cases "responses orc (ID req)") auto
        have fin: "pooled (finishRequest env priv req r resp t bt incTx orc0) = pooled orc
               \<or> (\<exists>p incTx'. pooled (finishRequest env priv req r resp t bt incTx orc0) = pooled orc @ [p]
                       \<and> responses (finishRequest env priv req r resp t bt incTx orc0) (ID req) = Some incTx'
                       \<and> isSent incTx')" for resp t bt
          using finishRequest_latch [OF rv ar fz, of priv req r resp t bt incTx orc0] ns fr(1)
          by auto
        from a \<open>Req req = Some r\<close> g Some show ?thesis
          using fin fr(1) by (auto simp: processRequest_def split: sum.splits option.splits)
      qed
    qed
  qed
  show ?thesis
    by (rule conjI [OF latched conjI [OF again unlatched]])
qed

theorem processRequest_pools_once_witness:
  "(\<exists>e orc'. processRequest (demo_env demo_json) [1]
        \<lparr> ID = 1, Req = Some (demo_request ''https://example/x'' None) \<rparr> demo_Oracle_sent
          = Some (e, orc')
        \<and> pooled orc' = [Some demo_tx])
   \<and> processRequest (demo_env demo_json) [1] \<lparr> ID = 1, Req = None \<rparr> demo_Oracle_sent
       = Some (None, demo_Oracle_sent\<lparr>pooled := [Some demo_tx, Some demo_tx]\<rparr>)"
proof -
  let ?env = "demo_env demo_json"
  let ?req = "\<lparr> ID = 1, Req = Some (demo_request ''https://example/x'' None) \<rparr>"
  have entry: "responses demo_Oracle_sent 1 = Some demo_sent" "isSent demo_sent"
    "tx demo_sent = Some demo_tx" "pooled demo_Oracle_sent = [Some demo_tx]"
    by (simp_all add: demo_Oracle_sent_def demo_sent_def)
  obtain e orc' where run: "processRequest ?env [1] ?req demo_Oracle_sent = Some (e, orc')"
    using processRequest_returns
            [where env = ?env and priv = "[1]" and req = ?req and orc = demo_Oracle_sent,
             OF demo_env_heights]
    by (cases "processRequest ?env [1] ?req demo_Oracle_sent") auto
  have "pooled orc' = pooled demo_Oracle_sent"
    using processRequest_pools_once
            [where env = ?env and priv = "[1]" and req = ?req and orc = demo_Oracle_sent,
             OF demo_env_latch]
      entry run by simp
  with run entry have first: "\<exists>e orc'. processRequest ?env [1] ?req demo_Oracle_sent = Some (e, orc')
        \<and> pooled orc' = [Some demo_tx]"
    by simp
  have second: "processRequest ?env [1] \<lparr> ID = 1, Req = None \<rparr> demo_Oracle_sent
       = Some (None, demo_Oracle_sent\<lparr>pooled := [Some demo_tx, Some demo_tx]\<rparr>)"
    using processRequest_pools_once
            [where env = ?env and priv = "[1]" and req = "\<lparr> ID = 1, Req = None \<rparr>"
               and orc = demo_Oracle_sent,
             OF demo_env_latch]
      entry by simp
  from first second show ?thesis by (rule conjI)
qed

text \<open>
  Claim C1, as the spec states it, does not hold: after \<open>processRequest\<close> has pooled the
  finished transaction of request 1 and set the latch, the next call for request 1 without
  a body (the ticker of \<open>start\<close> sends \<open>request{ID: id}\<close>) runs \<open>processFailedRequest\<close>,
  whose branch \<open>incTx.isSent\<close> calls \<open>sendTx(incTx.tx)\<close>: the callback gets the
  transaction a second time.
\<close>

theorem processFailedRequest_pools_again:
  "processRequest (demo_env demo_json) [1]
     \<lparr> ID = 1, Req = Some (demo_request ''https://example/x'' None) \<rparr> empty_Oracle
     = Some (None, demo_Oracle_sent)
   \<and> pooled demo_Oracle_sent = [Some demo_tx]
   \<and> map_option isSent (responses demo_Oracle_sent 1) = Some True
   \<and> processRequest (demo_env demo_json) [1] \<lparr> ID = 1, Req = None \<rparr> demo_Oracle_sent
     = Some (None, demo_Oracle_sent\<lparr>pooled := [Some demo_tx, Some demo_tx]\<rparr>)"
proof (intro conjI)
  show "processRequest (demo_env demo_json) [1]
     \<lparr> ID = 1, Req = Some (demo_request ''https://example/x'' None) \<rparr> empty_Oracle
     = Some (None, demo_Oracle_sent)"
    by (rule processRequest_demo)
  show "pooled demo_Oracle_sent = [Some demo_tx]"
    by (simp add: demo_Oracle_sent_def)
  show "map_option isSent (responses demo_Oracle_sent 1) = Some True"
    by (simp add: demo_Oracle_sent_def demo_sent_def)
  show "processRequest (demo_env demo_json) [1] \<lparr> ID = 1, Req = None \<rparr> demo_Oracle_sent
     = Some (None, demo_Oracle_sent\<lparr>pooled := [Some demo_tx, Some demo_tx]\<rparr>)"
    by (simp add: processRequest_def processFailedRequest_demo)
qed

subsection \<open>OnPayload and the cache of relayed payloads\<close>







lemma OnPayload_validators: "validators (snd (OnPayload env s cp)) = validators s"
  by (cases "validatePayload env s cp")
     (auto simp: OnPayload_def Let_def split: payload_Type.splits option.splits)












subsection \<open>Calls of native methods\<close>

lemma popArgs_enough:
  "n \<le> length st \<Longrightarrow> popArgs n st = Inr (take n st, drop n st)"
  by (induction n st rule: popArgs.induct) simp_all

lemma popArgs_short:
  "length st < n \<Longrightarrow> isl (popArgs n st)"
  by (induction n st rule: popArgs.induct) (auto split: sum.splits)

lemma Estack_AddGas: "Estack (snd (AddGas v gas)) = Estack v"
  by (simp add: AddGas_def Let_def)

lemma Call_found:
  assumes "Estack (VM ic) = v # st" and "int64Of v = Inr version"
    and "find (\<lambda>ctr. Hash ctr = CurrentScriptHash (VM ic)) (Natives ic) = Some c"
    and "GetMethodByOffset c (IP (VM ic)) = Some m"
  shows "Call int64Of ic =
     (if version \<noteq> 0 then Inl (Errorf ''native contract of version is not active'')
      else if \<not> Has_flags (CallFlags (VM ic)) (RequiredFlags m)
      then Inl (Errorf ''missing call flags for native operation call'')
      else if \<not> fst (AddGas ((VM ic)\<lparr>Estack := st\<rparr>) (Price m))
      then Inl (Errorf ''gas limit exceeded'')
      else
        (case popArgs (length (MD_Parameters m)) st of
           Inl err \<Rightarrow> Inl err
         | Inr (args, st') \<Rightarrow>
             (case Func m (snd (AddGas ((VM ic)\<lparr>Estack := st\<rparr>) (Price m))\<lparr>Estack := st'\<rparr>) args of
                Inl err \<Rightarrow> Inl err
              | Inr (result, vm2) \<Rightarrow>
                  Inr (ic\<lparr>VM := if MD_ReturnType m \<noteq> VoidType
                                then vm2\<lparr>Estack := result # Estack vm2\<rparr> else vm2\<rparr>))))"
proof -
  obtain ok vm1 where g: "AddGas ((VM ic)\<lparr>Estack := st\<rparr>) (Price m) = (ok, vm1)"
    by (cases "AddGas ((VM ic)\<lparr>Estack := st\<rparr>) (Price m)") auto
  then have e: "Estack vm1 = st"
    using Estack_AddGas [of "(VM ic)\<lparr>Estack := st\<rparr>" "Price m"] by simp
  show ?thesis
    using assms
    by (cases "popArgs (length (MD_Parameters m)) st") (auto simp: Call_def g e)
qed

text \<open>
  Claim C6, as amended.  A call of a native method pops the version first.  It returns an
  error (or panics) whenever the stack is empty, the popped item is not a number, the
  version is not zero, no native contract has the hash of the current script, the
  contract has no method at the current instruction offset, the call flags of the current
  context do not include the flags the method requires, adding the price of the method to
  the consumed gas exceeds the gas limit, or the stack holds fewer items than the method
  declares parameters.  Otherwise it pops exactly the declared number of arguments, runs
  the handler on them, and pushes the result exactly when the declared return type is not
  \<open>Void\<close>.
\<close>

theorem native_Call_spec:
  "(Estack (VM ic) = [] \<longrightarrow> isl (Call int64Of ic))
   \<and> (\<forall>v st. Estack (VM ic) = v # st \<and> isl (int64Of v) \<longrightarrow> isl (Call int64Of ic))
   \<and> (find (\<lambda>ctr. Hash ctr = CurrentScriptHash (VM ic)) (Natives ic) = None
        \<longrightarrow> isl (Call int64Of ic))
   \<and> (\<forall>c. find (\<lambda>ctr. Hash ctr = CurrentScriptHash (VM ic)) (Natives ic) = Some c
           \<and> GetMethodByOffset c (IP (VM ic)) = None \<longrightarrow> isl (Call int64Of ic))
   \<and> (\<forall>v st version c m.
         Estack (VM ic) = v # st \<and> int64Of v = Inr version
         \<and> find (\<lambda>ctr. Hash ctr = CurrentScriptHash (VM ic)) (Natives ic) = Some c
         \<and> GetMethodByOffset c (IP (VM ic)) = Some m \<longrightarrow>
           (version \<noteq> 0 \<longrightarrow> isl (Call int64Of ic))
         \<and> (\<not> Has_flags (CallFlags (VM ic)) (RequiredFlags m) \<longrightarrow> isl (Call int64Of ic))
         \<and> (\<not> fst (AddGas ((VM ic)\<lparr>Estack := st\<rparr>) (Price m)) \<longrightarrow> isl (Call int64Of ic))
         \<and> (length st < length (MD_Parameters m) \<longrightarrow> isl (Call int64Of ic))
         \<and> (version = 0 \<and> Has_flags (CallFlags (VM ic)) (RequiredFlags m)
              \<and> fst (AddGas ((VM ic)\<lparr>Estack := st\<rparr>) (Price m))
              \<and> length (MD_Parameters m) \<le> length st \<longrightarrow>
              Call int64Of ic =
                (case Func m (snd (AddGas ((VM ic)\<lparr>Estack := st\<rparr>) (Price m))
                                \<lparr>Estack := drop (length (MD_Parameters m)) st\<rparr>)
                        (take (length (MD_Parameters m)) st) of
                   Inl err \<Rightarrow> Inl err
                 | Inr (result, vm2) \<Rightarrow>
                     Inr (ic\<lparr>VM := if MD_ReturnType m \<noteq> VoidType
                                   then vm2\<lparr>Estack := result # Estack vm2\<rparr> else vm2\<rparr>))))"
proof -
  have empty: "Estack (VM ic) = [] \<longrightarrow> isl (Call int64Of ic)"
    by (simp add: Call_def)
  have conv: "\<forall>v st. Estack (VM ic) = v # st \<and> isl (int64Of v) \<longrightarrow> isl (Call int64Of ic)"
    by (auto simp: Call_def isl_def)
  have nocontract: "find (\<lambda>ctr. Hash ctr = CurrentScriptHash (VM ic)) (Natives ic) = None
        \<longrightarrow> isl (Call int64Of ic)"
    by (simp add: Call_def split: list.splits sum.splits)
  have nomethod: "\<forall>c. find (\<lambda>ctr. Hash ctr = CurrentScriptHash (VM ic)) (Natives ic) = Some c
           \<and> GetMethodByOffset c (IP (VM ic)) = None \<longrightarrow> isl (Call int64Of ic)"
    by (auto simp: Call_def split: list.splits sum.splits)
  have found: "(version \<noteq> 0 \<longrightarrow> isl (Call int64Of ic))
         \<and> (\<not> Has_flags (CallFlags (VM ic)) (RequiredFlags m) \<longrightarrow> isl (Call int64Of ic))
         \<and> (\<not> fst (AddGas ((VM ic)\<lparr>Estack := st\<rparr>) (Price m)) \<longrightarrow> isl (Call int64Of ic))
         \<and> (length st < length (MD_Parameters m) \<longrightarrow> isl (Call int64Of ic))
         \<and> (version = 0 \<and> Has_flags (CallFlags (VM ic)) (RequiredFlags m)
              \<and> fst (AddGas ((VM ic)\<lparr>Estack := st\<rparr>) (Price m))
              \<and> length (MD_Parameters m) \<le> length st \<longrightarrow>
              Call int64Of ic =
                (case Func m (snd (AddGas ((VM ic)\<lparr>Estack := st\<rparr>) (Price m))
                                \<lparr>Estack := drop (length (MD_Parameters m)) st\<rparr>)
                        (take (length (MD_Parameters m)) st) of
                   Inl err \<Rightarrow> Inl err
                 | Inr (result, vm2) \<Rightarrow>
                     Inr (ic\<lparr>VM := if MD_ReturnType m \<noteq> VoidType
                                   then vm2\<lparr>Estack := result # Estack vm2\<rparr> else vm2\<rparr>)))"
    if a: "Estack (VM ic) = v # st" "int64Of v = Inr version"
      "find (\<lambda>ctr. Hash ctr = CurrentScriptHash (VM ic)) (Natives ic) = Some c"
      "GetMethodByOffset c (IP (VM ic)) = Some m" for v st version c m
  proof -
    note eq = Call_found [where int64Of = int64Of and ic = ic and v = v, OF a]
    have short: "isl (Call int64Of ic)" if "length st < length (MD_Parameters m)"
      using popArgs_short [OF that] by (auto simp: eq isl_def)
    have ok: "Call int64Of ic =
                (case Func m (snd (AddGas ((VM ic)\<lparr>Estack := st\<rparr>) (Price m))
                                \<lparr>Estack := drop (length (MD_Parameters m)) st\<rparr>)
                        (take (length (MD_Parameters m)) st) of
                   Inl err \<Rightarrow> Inl err
                 | Inr (result, vm2) \<Rightarrow>
                     Inr (ic\<lparr>VM := if MD_ReturnType m \<noteq> VoidType
                                   then vm2\<lparr>Estack := result # Estack vm2\<rparr> else vm2\<rparr>))"
      if "version = 0" "Has_flags (CallFlags (VM ic)) (RequiredFlags m)"
        "fst (AddGas ((VM ic)\<lparr>Estack := st\<rparr>) (Price m))"
        "length (MD_Parameters m) \<le> length st"
      using that by (simp add: eq popArgs_enough)
    show ?thesis
      using short ok by (simp add: eq)
  qed
  have found_all: "\<forall>v st version c m.
         Estack (VM ic) = v # st \<and> int64Of v = Inr version
         \<and> find (\<lambda>ctr. Hash ctr = CurrentScriptHash (VM ic)) (Natives ic) = Some c
         \<and> GetMethodByOffset c (IP (VM ic)) = Some m \<longrightarrow>
           (version \<noteq> 0 \<longrightarrow> isl (Call int64Of ic))
         \<and> (\<not> Has_flags (CallFlags (VM ic)) (RequiredFlags m) \<longrightarrow> isl (Call int64Of ic))
         \<and> (\<not> fst (AddGas ((VM ic)\<lparr>Estack := st\<rparr>) (Price m)) \<longrightarrow> isl (Call int64Of ic))
         \<and> (length st < length (MD_Parameters m) \<longrightarrow> isl (Call int64Of ic))
         \<and> (version = 0 \<and> Has_flags (CallFlags (VM ic)) (RequiredFlags m)
              \<and> fst (AddGas ((VM ic)\<lparr>Estack := st\<rparr>) (Price m))
              \<and> length (MD_Parameters m) \<le> length st \<longrightarrow>
              Call int64Of ic =
                (case Func m (snd (AddGas ((VM ic)\<lparr>Estack := st\<rparr>) (Price m))
                                \<lparr>Estack := drop (length (MD_Parameters m)) st\<rparr>)
                        (take (length (MD_Parameters m)) st) of
                   Inl err \<Rightarrow> Inl err
                 | Inr (result, vm2) \<Rightarrow>
                     Inr (ic\<lparr>VM := if MD_ReturnType m \<noteq> VoidType
                                   then vm2\<lparr>Estack := result # Estack vm2\<rparr> else vm2\<rparr>)))"
  proof (intro allI impI)
    fix v st version c m
    assume "Estack (VM ic) = v # st \<and> int64Of v = Inr version
         \<and> find (\<lambda>ctr. Hash ctr = CurrentScriptHash (VM ic)) (Natives ic) = Some c
         \<and> GetMethodByOffset c (IP (VM ic)) = Some m"
    then have a: "Estack (VM ic) = v # st" "int64Of v = Inr version"
      "find (\<lambda>ctr. Hash ctr = CurrentScriptHash (VM ic)) (Natives ic) = Some c"
      "GetMethodByOffset c (IP (VM ic)) = Some m"
      by simp_all
    show "(version \<noteq> 0 \<longrightarrow> isl (Call int64Of ic))
         \<and> (\<not> Has_flags (CallFlags (VM ic)) (RequiredFlags m) \<longrightarrow> isl (Call int64Of ic))
         \<and> (\<not> fst (AddGas ((VM ic)\<lparr>Estack := st\<rparr>) (Price m)) \<longrightarrow> isl (Call int64Of ic))
         \<and> (length st < length (MD_Parameters m) \<longrightarrow> isl (Call int64Of ic))
         \<and> (version = 0 \<and> Has_flags (CallFlags (VM ic)) (RequiredFlags m)
              \<and> fst (AddGas ((VM ic)\<lparr>Estack := st\<rparr>) (Price m))
              \<and> length (MD_Parameters m) \<le> length st \<longrightarrow>
              Call int64Of ic =
                (case Func m (snd (AddGas ((VM ic)\<lparr>Estack := st\<rparr>) (Price m))
                                \<lparr>Estack := drop (length (MD_Parameters m)) st\<rparr>)
                        (take (length (MD_Parameters m)) st) of
                   Inl err \<Rightarrow> Inl err
                 | Inr (result, vm2) \<Rightarrow>
                     Inr (ic\<lparr>VM := if MD_ReturnType m \<noteq> VoidType
                                   then vm2\<lparr>Estack := result # Estack vm2\<rparr> else vm2\<rparr>)))"
      by (rule found [OF a])
  qed
  show ?thesis
    by (rule conjI [OF empty conjI [OF conv conjI [OF nocontract conjI [OF nomethod found_all]]]])
qed

text \<open>
  Claim C6, as the spec states it, does not hold: it names three reasons for an error and
  lets every other call pop the arguments and push the result.  With the version 1 on the
  stack the method is found at the offset, the call flags include the required ones and
  the price is within the gas limit, and still \<open>Call\<close> returns an error, by its first
  check.
\<close>

theorem native_Call_inactive_version:
  "find (\<lambda>ctr. Hash ctr = CurrentScriptHash (VM (demo_ic 1 0))) (Natives (demo_ic 1 0))
     = Some demo_native
   \<and> GetMethodByOffset demo_native (IP (VM (demo_ic 1 0))) = Some demo_add
   \<and> Has_flags (CallFlags (VM (demo_ic 1 0))) (RequiredFlags demo_add)
   \<and> fst (AddGas (VM (demo_ic 1 0)) (Price demo_add))
   \<and> Call demo_int64Of (demo_ic 1 0)
       = Inl (Errorf ''native contract of version is not active'')"
  by (simp add: Call_def demo_ic_def demo_native_def demo_add_def demo_int64Of_def
      GetMethodByOffset_def Has_flags_def AddGas_def)

theorem native_Call_spec_witness:
  "map_sum id (\<lambda>ic. (Estack (VM ic), gasConsumed (VM ic))) (Call demo_int64Of (demo_ic 0 0))
     = Inr ([Integer 5, Integer 42], 10)
   \<and> map_sum id (\<lambda>ic. (Estack (VM ic), gasConsumed (VM ic))) (Call demo_int64Of (demo_ic 0 7))
     = Inr ([Integer 3, Integer 42], 10)
   \<and> isl (Call demo_int64Of (demo_ic 0 3))
   \<and> isl (Call demo_int64Of (demo_ic 1 0))"
proof -
  have m0: "find (\<lambda>ctr. Hash ctr = CurrentScriptHash (VM (demo_ic 0 0))) (Natives (demo_ic 0 0))
       = Some demo_native"
    "GetMethodByOffset demo_native (IP (VM (demo_ic 0 0))) = Some demo_add"
    "Estack (VM (demo_ic 0 0)) = Integer 0 # [Integer 2, Integer 3, Integer 42]"
    "demo_int64Of (Integer 0) = Inr 0"
    by (simp_all add: demo_ic_def demo_native_def demo_add_def GetMethodByOffset_def
        demo_int64Of_def)
  have a: "map_sum id (\<lambda>ic. (Estack (VM ic), gasConsumed (VM ic))) (Call demo_int64Of (demo_ic 0 0))
     = Inr ([Integer 5, Integer 42], 10)"
    using native_Call_spec [of "demo_ic 0 0" demo_int64Of] m0
    by (simp add: demo_add_def Has_flags_def AddGas_def) (simp add: demo_ic_def)
  have rest: "map_sum id (\<lambda>ic. (Estack (VM ic), gasConsumed (VM ic)))
         (Call demo_int64Of (demo_ic 0 7))
     = Inr ([Integer 3, Integer 42], 10)
   \<and> isl (Call demo_int64Of (demo_ic 0 3))
   \<and> isl (Call demo_int64Of (demo_ic 1 0))"
    by (simp add: Call_def demo_ic_def demo_native_def demo_add_def demo_touch_def
        demo_int64Of_def GetMethodByOffset_def Has_flags_def AddGas_def)
  from a rest show ?thesis by simp
qed

subsection \<open>Deploy, update and destroy\<close>

















subsection \<open>CheckWitness and the witness scopes\<close>

text \<open>
  Claim C4.  Let \<open>c\<close> be the signer of the transaction with the account \<open>h\<close>.
  \<open>CheckWitness(h)\<close> follows the scope of \<open>c\<close>: None gives false; Global gives true;
  CustomContracts gives true exactly when the hash of the current script is in the
  allowed contracts of \<open>c\<close>; CustomGroups gives true exactly when the current context
  holds the flag \<open>AllowStates\<close> and the calling contract has a group key of its manifest
  in the allowed groups of \<open>c\<close>.
\<close>

theorem CheckWitness_scopes:
  assumes "Signers ctx = Some signers" and "find (\<lambda>c. Account c = h) signers = Some c"
  shows
    "(Scopes c = ScopeNone \<longrightarrow> CheckWitness ctx h = Inr False)
   \<and> (Scopes c = Global \<longrightarrow> CheckWitness ctx h = Inr True)
   \<and> (Scopes c = CustomContracts \<longrightarrow>
        CheckWitness ctx h = Inr (currentScriptHash ctx \<in> set (AllowedContracts c)))
   \<and> (Scopes c = CustomGroups \<longrightarrow>
        (CheckWitness ctx h = Inr True) =
          (Has_flags (contextCallFlags ctx) AllowStates
           \<and> (\<exists>calling groups g.
                 callingScriptHash ctx = Some calling
               \<and> manifestGroups ctx calling = Some groups
               \<and> g \<in> set groups \<and> g \<in> set (AllowedGroups c))))"
  using assms
  by (auto simp: CheckWitness_def checkScope_def list_ex_iff split: option.splits)

theorem CheckWitness_scopes_witness:
  "CheckWitness (demo_witness ScopeNone 15) 9 = Inr False
   \<and> CheckWitness (demo_witness Global 15) 9 = Inr True
   \<and> CheckWitness (demo_witness CustomContracts 15) 9 = Inr True
   \<and> CheckWitness (demo_witness CustomGroups 15) 9 = Inr True
   \<and> isl (CheckWitness (demo_witness CustomGroups 4) 9)"
proof -
  have s: "Signers (demo_witness scope flags)
      = Some [\<lparr> Account = 9, Scopes = scope, AllowedContracts = [8], AllowedGroups = [[5]] \<rparr>]"
    "find (\<lambda>c. Account c = 9)
       [\<lparr> Account = 9, Scopes = scope, AllowedContracts = [8], AllowedGroups = [[5]] \<rparr>]
      = Some \<lparr> Account = 9, Scopes = scope, AllowedContracts = [8], AllowedGroups = [[5]] \<rparr>"
    for scope flags
    by (simp_all add: demo_witness_def)
  note t = CheckWitness_scopes [OF s]
  have "CheckWitness (demo_witness ScopeNone 15) 9 = Inr False"
    using t [of ScopeNone 15] by simp
  moreover have "CheckWitness (demo_witness Global 15) 9 = Inr True"
    using t [of Global 15] by simp
  moreover have "CheckWitness (demo_witness CustomContracts 15) 9 = Inr True"
    using t [of CustomContracts 15] by (simp add: demo_witness_def)
  moreover have "CheckWitness (demo_witness CustomGroups 15) 9 = Inr True"
    using t [of CustomGroups 15] by (simp add: demo_witness_def Has_flags_def AllowStates_def)
  moreover have "isl (CheckWitness (demo_witness CustomGroups 4) 9)"
    by (simp add: CheckWitness_def checkScope_def demo_witness_def Has_flags_def AllowStates_def)
  ultimately show ?thesis by simp
qed

subsection \<open>Contract.Call\<close>

lemma unload_prog:
  "unload (c\<lparr>prog := p, estack := st\<rparr>) cs = unload (c\<lparr>estack := st\<rparr>) cs"
  by (simp add: unload_def returnValues_def split: option.splits)

text \<open>A context runs as its script does on its own stack, whatever lies below it on the
  invocation stack, until it is unloaded.\<close>

lemma run_exec:
  "run (c\<lparr>prog := p, estack := st\<rparr> # cs) =
     (case exec p st of
        None \<Rightarrow> FAULT
      | Some st' \<Rightarrow>
          (case unload (c\<lparr>estack := st'\<rparr>) cs of
             Inl final \<Rightarrow> final
           | Inr cs' \<Rightarrow> run cs'))"
  by (induction p st rule: exec.induct)
    (simp_all add: step_def unload_prog split: Item.splits)

lemma run_callee:
  "run (\<lparr> prog = p, estack = st, retCount = Some k \<rparr> # caller # rest) =
     (case exec p st of
        None \<Rightarrow> FAULT
      | Some vals \<Rightarrow>
          if length vals \<noteq> k then FAULT
          else run (caller\<lparr>estack := (if k = 0 then [Null] else vals) @ estack caller\<rparr> # rest))"
  using run_exec [where c = "\<lparr> prog = p, estack = st, retCount = Some k \<rparr>"
      and p = p and st = st and cs = "caller # rest"]
  by (simp add: unload_def returnValues_def split: option.splits)

lemma Contract_Call_Inr:
  assumes "Contract_Call methodOf (caller # rest) = Inr cs'"
  shows "\<exists>h name args st m.
           estack caller = ByteString h # ByteString name # Array args # st \<and>
           methodOf h name = Some m \<and> length args = method_params m \<and>
           cs' = \<lparr> prog = method_code m, estack = args,
                   retCount = Some (if method_void m then 0 else 1) \<rparr>
                 # caller\<lparr>estack := st\<rparr> # rest"
  using assms
  by (auto simp: Contract_Call_def split: list.splits Item.splits option.splits if_splits)

lemma bytes_of_demo:
  "bytes_of ''add'' = [97, 100, 100]"
  "bytes_of ''drop'' = [100, 114, 111, 112]"
  "bytes_of ''invalidReturn'' = [105, 110, 118, 97, 108, 105, 100, 82, 101, 116, 117, 114, 110]"
  "bytes_of ''justReturn'' = [106, 117, 115, 116, 82, 101, 116, 117, 114, 110]"
  by (simp_all add: bytes_of_def)

lemma Contract_Call_demo:
  "Contract_Call demo_methodOf (demo_caller ''add'' [Integer 1, Integer 2]) =
     Inr [\<lparr> prog = [ADD, RET], estack = [Integer 1, Integer 2], retCount = Some 1 \<rparr>,
          \<lparr> prog = [RET], estack = [Integer 42], retCount = None \<rparr>]"
  "Contract_Call demo_methodOf (demo_caller ''drop'' []) =
     Inr [\<lparr> prog = [DROP, RET], estack = [], retCount = Some 0 \<rparr>,
          \<lparr> prog = [RET], estack = [Integer 42], retCount = None \<rparr>]"
  "Contract_Call demo_methodOf (demo_caller ''invalidReturn'' []) =
     Inr [\<lparr> prog = [PUSH 1, PUSH 2, RET], estack = [], retCount = Some 1 \<rparr>,
          \<lparr> prog = [RET], estack = [Integer 42], retCount = None \<rparr>]"
  "Contract_Call demo_methodOf (demo_caller ''justReturn'' []) =
     Inr [\<lparr> prog = [RET], estack = [], retCount = Some 0 \<rparr>,
          \<lparr> prog = [RET], estack = [Integer 42], retCount = None \<rparr>]"
  by (simp_all add: Contract_Call_def demo_caller_def demo_methodOf_def bytes_of_demo)

lemma run_demo:
  "run [\<lparr> prog = [ADD, RET], estack = [Integer 1, Integer 2], retCount = Some 1 \<rparr>,
        \<lparr> prog = [RET], estack = [Integer 42], retCount = None \<rparr>]
     = HALT [Integer 3, Integer 42]"
  "run [\<lparr> prog = [PUSH 1, PUSH 2, RET], estack = [], retCount = Some 1 \<rparr>,
        \<lparr> prog = [RET], estack = [Integer 42], retCount = None \<rparr>]
     = FAULT"
  "run [\<lparr> prog = [RET], estack = [], retCount = Some 0 \<rparr>,
        \<lparr> prog = [RET], estack = [Integer 42], retCount = None \<rparr>]
     = HALT [Null, Integer 42]"
  by (simp_all add: step_def unload_def returnValues_def)

text \<open>
  Claim C5.  When \<open>Contract.Call\<close> succeeds, the run of the invocation stack it leaves is
  the run of the method on a stack of its own that holds the arguments only: what the
  caller has on its stack (\<open>st\<close>) has no part in it, and is found again under the values
  returned.  The run faults when the method faults on that stack, as a \<open>DROP\<close> on the
  empty stack of a method without arguments does even though the caller's stack is not
  empty; it faults when the method leaves another number of items than it declares
  (one, or none for a method declared void), so when it leaves more; and the caller of
  a void method that leaves nothing goes on with \<open>Null\<close> on top of its stack.
\<close>

theorem Contract_Call_isolated_stack:
  assumes "Contract_Call methodOf (caller # rest) = Inr cs'"
  shows "\<exists>h name args st m.
           estack caller = ByteString h # ByteString name # Array args # st \<and>
           methodOf h name = Some m \<and>
           run cs' =
             (case exec (method_code m) args of
                None \<Rightarrow> FAULT
              | Some vals \<Rightarrow>
                  if length vals \<noteq> (if method_void m then 0 else 1) then FAULT
                  else run (caller\<lparr>estack := (if method_void m then [Null] else vals) @ st\<rparr>
                            # rest)) \<and>
           (\<forall>vals. exec (method_code m) args = Some vals \<and>
                     (if method_void m then 0 else 1) < length vals
                \<longrightarrow> run cs' = FAULT) \<and>
           (\<forall>q. method_code m = DROP # q \<and> args = [] \<longrightarrow> run cs' = FAULT) \<and>
           (method_void m \<and> exec (method_code m) args = Some []
                \<longrightarrow> run cs' = run (caller\<lparr>estack := Null # st\<rparr> # rest))"
proof -
  from Contract_Call_Inr [OF assms] obtain h name args st m where
    e: "estack caller = ByteString h # ByteString name # Array args # st" and
    m: "methodOf h name = Some m" and
    c: "cs' = \<lparr> prog = method_code m, estack = args,
                 retCount = Some (if method_void m then 0 else 1) \<rparr>
               # caller\<lparr>estack := st\<rparr> # rest"
    by blast
  have r: "run cs' =
             (case exec (method_code m) args of
                None \<Rightarrow> FAULT
              | Some vals \<Rightarrow>
                  if length vals \<noteq> (if method_void m then 0 else 1) then FAULT
                  else run (caller\<lparr>estack := (if method_void m then [Null] else vals) @ st\<rparr>
                            # rest))"
    unfolding c run_callee by (simp split: option.splits)
  have more: "\<forall>vals. exec (method_code m) args = Some vals \<and>
                     (if method_void m then 0 else 1) < length vals
                \<longrightarrow> run cs' = FAULT"
    unfolding r by (simp split: option.splits)
  have pop: "\<forall>q. method_code m = DROP # q \<and> args = [] \<longrightarrow> run cs' = FAULT"
    unfolding r by (simp split: option.splits)
  have void: "method_void m \<and> exec (method_code m) args = Some []
                \<longrightarrow> run cs' = run (caller\<lparr>estack := Null # st\<rparr> # rest)"
    unfolding r by (simp split: option.splits)
  from e m r more pop void show ?thesis
    by blast
qed

text \<open>The four calls of \<open>TestContractCall\<close>, from a caller whose stack holds 42:
  \<open>drop\<close> faults on its empty stack, \<open>add\<close> halts with 3 above the 42 of the caller,
  \<open>invalidReturn\<close> leaves two items for the one it declares and faults, \<open>justReturn\<close>
  hands \<open>Null\<close> on.\<close>

theorem Contract_Call_isolated_stack_witness:
  "(\<exists>cs'. Contract_Call demo_methodOf (demo_caller ''drop'' []) = Inr cs' \<and> run cs' = FAULT) \<and>
   (\<exists>cs'. Contract_Call demo_methodOf (demo_caller ''add'' [Integer 1, Integer 2]) = Inr cs' \<and>
      run cs' = HALT [Integer 3, Integer 42]) \<and>
   (\<exists>cs'. Contract_Call demo_methodOf (demo_caller ''invalidReturn'' []) = Inr cs' \<and>
      run cs' = FAULT) \<and>
   (\<exists>cs'. Contract_Call demo_methodOf (demo_caller ''justReturn'' []) = Inr cs' \<and>
      run cs' = HALT [Null, Integer 42])"
proof -
  have d: "Contract_Call demo_methodOf
             (\<lparr> prog = [RET],
                estack = [ByteString [1], ByteString (bytes_of ''drop''), Array [], Integer 42],
                retCount = None \<rparr> # []) =
           Inr [\<lparr> prog = [DROP, RET], estack = [], retCount = Some 0 \<rparr>,
                \<lparr> prog = [RET], estack = [Integer 42], retCount = None \<rparr>]"
    using Contract_Call_demo(2) by (simp add: demo_caller_def)
  have f: "run [\<lparr> prog = [DROP, RET], estack = [], retCount = Some 0 \<rparr>,
                \<lparr> prog = [RET], estack = [Integer 42], retCount = None \<rparr>] = FAULT"
    using Contract_Call_isolated_stack [OF d]
    by (auto simp: demo_methodOf_def bytes_of_demo split: if_splits)
  show ?thesis
    unfolding Contract_Call_demo using f run_demo by blast
qed

end
